theory Spec2Isabelle
  imports Main
begin

section \<open>Python values\<close>

text \<open>
  The scripts read a parquet file with pandas and walk the rows of the data frame.
  A cell of a row is None, a bool, an int, the missing-value float NaN, a string, a Python
  list, a one-dimensional numpy object array (what pandas yields for a list column), or a
  dict with string keys (what pandas yields for a struct column). A row handed out by
  \<^verbatim>\<open>df.iterrows()\<close> is a pandas Series, which is not a dict. Finite floats other than NaN
  are outside the model.
\<close>

datatype py_error = ValueError | TypeError

datatype pyval =
    PNone
  | PBool bool
  | PInt int
  | PNaN
  | PStr string
  | PList "pyval list"
  | PArray "pyval list"
  | PDict "(string \<times> pyval) list"
  | PSeries "(string \<times> pyval) list"

type_synonym series = "(string \<times> pyval) list"

text \<open>\<^verbatim>\<open>isinstance(x, dict)\<close>, \<^verbatim>\<open>isinstance(x, np.ndarray)\<close>, \<^verbatim>\<open>isinstance(x, str)\<close>,
  \<^verbatim>\<open>isinstance(x, list)\<close>.\<close>

fun is_dict :: "pyval \<Rightarrow> bool" where
  "is_dict (PDict d) = True"
| "is_dict v = False"

fun is_ndarray :: "pyval \<Rightarrow> bool" where
  "is_ndarray (PArray xs) = True"
| "is_ndarray v = False"

fun is_str :: "pyval \<Rightarrow> bool" where
  "is_str (PStr s) = True"
| "is_str v = False"

fun is_list :: "pyval \<Rightarrow> bool" where
  "is_list (PList xs) = True"
| "is_list v = False"

text \<open>\<^verbatim>\<open>d.get(key, default)\<close> on a dict, and \<^verbatim>\<open>row.get(key)\<close> / \<^verbatim>\<open>row.get(key, default)\<close>
  on a Series (a missing label gives the default, None when no default is passed).\<close>

definition dict_get :: "(string \<times> pyval) list \<Rightarrow> string \<Rightarrow> pyval \<Rightarrow> pyval" where
  "dict_get d key dflt = (case map_of d key of Some v \<Rightarrow> v | None \<Rightarrow> dflt)"

definition row_get :: "series \<Rightarrow> string \<Rightarrow> pyval" where
  "row_get row key = dict_get row key PNone"

text \<open>The elements a \<^verbatim>\<open>for x in arr\<close> loop visits, and \<^verbatim>\<open>arr.size\<close>.\<close>

fun elements :: "pyval \<Rightarrow> pyval list" where
  "elements (PArray xs) = xs"
| "elements (PList xs) = xs"
| "elements v = []"

text \<open>
  Truth value of an object, as \<^verbatim>\<open>if x\<close> and \<^verbatim>\<open>x and ...\<close> compute it. numpy refuses the
  truth value of an array whose size is not 1, pandas that of any Series; an array of size 1
  has the truth value of its element.
\<close>

fun truthy :: "pyval \<Rightarrow> py_error + bool" where
  "truthy PNone = Inr False"
| "truthy (PBool b) = Inr b"
| "truthy (PInt n) = Inr (n \<noteq> 0)"
| "truthy PNaN = Inr True"
| "truthy (PStr s) = Inr (s \<noteq> [])"
| "truthy (PList xs) = Inr (xs \<noteq> [])"
| "truthy (PDict d) = Inr (d \<noteq> [])"
| "truthy (PArray [x]) = truthy x"
| "truthy (PArray xs) = Inl ValueError"
| "truthy (PSeries r) = Inl ValueError"

section \<open>The helpers shared by the scripts\<close>

text \<open>
  \<^verbatim>\<open>
  def safe_get(obj, key, default=None):
      if isinstance(obj, dict):
          return obj.get(key, default)
      return default
  \<close>
  The same three lines open every script.
\<close>

definition safe_get :: "pyval \<Rightarrow> string \<Rightarrow> pyval \<Rightarrow> pyval" where
  "safe_get obj key dflt =
     (case obj of PDict d \<Rightarrow> dict_get d key dflt | _ \<Rightarrow> dflt)"

text \<open>\<^verbatim>\<open>str.strip()\<close> removes the leading and trailing characters that \<^verbatim>\<open>str.isspace\<close> accepts.\<close>

definition is_space :: "char \<Rightarrow> bool" where
  "is_space c = (of_char c \<in> {9, 10, 11, 12, 13, 28, 29, 30, 31, 32, 133, 160 :: nat})"

definition strip :: "string \<Rightarrow> string" where
  "strip s = rev (dropWhile is_space (rev (dropWhile is_space s)))"

text \<open>
  \<^verbatim>\<open>
  def safe_int(value, default=None):
      try:
          if value and str(value).strip():
              return int(float(str(value)))
          return default
      except:
          return default
  \<close>
  (export_relational.py, populate_nested_data.py). Python's \<^verbatim>\<open>str\<close> and the composition
  \<^verbatim>\<open>int(float(.))\<close> are parameters: \<open>to_str\<close> renders a value, \<open>int_of_float_str\<close> gives
  the integer or None where \<^verbatim>\<open>float\<close> or \<^verbatim>\<open>int\<close> raises. The bare \<^verbatim>\<open>except\<close> turns every
  exception, also the one of an ambiguous truth value, into the default.
\<close>

definition safe_int ::
  "(pyval \<Rightarrow> string) \<Rightarrow> (string \<Rightarrow> int option) \<Rightarrow> pyval \<Rightarrow> pyval \<Rightarrow> pyval" where
  "safe_int to_str int_of_float_str value dflt =
     (case truthy value of
        Inl e \<Rightarrow> dflt
      | Inr t \<Rightarrow>
          if t \<and> strip (to_str value) \<noteq> []
          then (case int_of_float_str (to_str value) of
                  None \<Rightarrow> dflt
                | Some n \<Rightarrow> PInt n)
          else dflt)"

text \<open>populate_nested_data_fixed.py adds the test \<^verbatim>\<open>str(value) != 'nan'\<close> to the condition.\<close>

definition safe_int_fixed ::
  "(pyval \<Rightarrow> string) \<Rightarrow> (string \<Rightarrow> int option) \<Rightarrow> pyval \<Rightarrow> pyval \<Rightarrow> pyval" where
  "safe_int_fixed to_str int_of_float_str value dflt =
     (case truthy value of
        Inl e \<Rightarrow> dflt
      | Inr t \<Rightarrow>
          if t \<and> strip (to_str value) \<noteq> [] \<and> to_str value \<noteq> ''nan''
          then (case int_of_float_str (to_str value) of
                  None \<Rightarrow> dflt
                | Some n \<Rightarrow> PInt n)
          else dflt)"

text \<open>
  \<^verbatim>\<open>
  def is_valid_array(arr):
      return isinstance(arr, np.ndarray) and arr.size > 0
  \<close>
\<close>

definition is_valid_array :: "pyval \<Rightarrow> bool" where
  "is_valid_array arr = (is_ndarray arr \<and> length (elements arr) > 0)"

section \<open>Exceptions, Python dicts keyed by values, JSON\<close>

text \<open>A computation that may raise is a value of \<open>py_error + 'a\<close>; \<open>then_do\<close> sequences two
  of them, and \<open>collect\<close> is a \<^verbatim>\<open>for\<close> loop whose body appends to one list: the first
  exception leaves the loop.\<close>

definition then_do :: "'e + 'a \<Rightarrow> ('a \<Rightarrow> 'e + 'b) \<Rightarrow> 'e + 'b" where
  "then_do m f = (case m of Inl e \<Rightarrow> Inl e | Inr x \<Rightarrow> f x)"

fun collect :: "('a \<Rightarrow> 'e + 'b list) \<Rightarrow> 'a list \<Rightarrow> 'e + 'b list" where
  "collect f [] = Inr []"
| "collect f (x # xs) =
     then_do (f x) (\<lambda>ys. then_do (collect f xs) (\<lambda>zs. Inr (ys @ zs)))"

text \<open>
  The registries (\<^verbatim>\<open>person_map\<close>, \<^verbatim>\<open>company_map\<close>, ...) are Python dicts whose keys are
  cell values. Lists, arrays, dicts and Series are unhashable: using one as a key raises
  TypeError. Keys are compared structurally, which is Python's equality on None and on
  strings, the values a VARCHAR key column holds.
\<close>

type_synonym pydict = "(pyval \<times> pyval) list"

fun hashable :: "pyval \<Rightarrow> bool" where
  "hashable (PList xs) = False"
| "hashable (PArray xs) = False"
| "hashable (PDict d) = False"
| "hashable (PSeries r) = False"
| "hashable v = True"

definition pd_get :: "pydict \<Rightarrow> pyval \<Rightarrow> py_error + pyval" where
  "pd_get m k = (if hashable k
                 then Inr (case map_of m k of Some v \<Rightarrow> v | None \<Rightarrow> PNone)
                 else Inl TypeError)"

definition pd_contains :: "pydict \<Rightarrow> pyval \<Rightarrow> py_error + bool" where
  "pd_contains m k = (if hashable k then Inr (map_of m k \<noteq> None) else Inl TypeError)"

text \<open>\<^verbatim>\<open>m[k] = v\<close>: an existing key keeps its place and takes the new value.\<close>

definition pd_put :: "('k \<times> 'v) list \<Rightarrow> 'k \<Rightarrow> 'v \<Rightarrow> ('k \<times> 'v) list" where
  "pd_put m k v = (if map_of m k = None then m @ [(k, v)]
                   else map (\<lambda>(k', v'). if k' = k then (k', v) else (k', v')) m)"

definition pd_set :: "pydict \<Rightarrow> pyval \<Rightarrow> pyval \<Rightarrow> py_error + pydict" where
  "pd_set m k v = (if hashable k then Inr (pd_put m k v) else Inl TypeError)"

text \<open>Decimal rendering of an index or an integer, as an f-string and \<^verbatim>\<open>json.dumps\<close> print it.\<close>

definition digit_char :: "nat \<Rightarrow> char" where
  "digit_char d = char_of (48 + d)"

function show_nat :: "nat \<Rightarrow> string" where
  "show_nat n = (if n < 10 then [digit_char n]
                 else show_nat (n div 10) @ [digit_char (n mod 10)])"
  by pat_completeness auto
termination
  by (relation "measure id") auto

declare show_nat.simps [simp del]

definition show_int :: "int \<Rightarrow> string" where
  "show_int i = (if i < 0 then CHR ''-'' # show_nat (nat (- i)) else show_nat (nat i))"

text \<open>
  \<^verbatim>\<open>json.dumps\<close> with its defaults: separators \<^verbatim>\<open>', '\<close> and \<^verbatim>\<open>': '\<close>, every character
  outside printable ASCII escaped, NaN printed as \<^verbatim>\<open>NaN\<close>. A numpy array or a Series anywhere
  in the value raises TypeError. A \<open>char\<close> stands for the code point of its number.
\<close>

definition hex_char :: "nat \<Rightarrow> char" where
  "hex_char d = (if d < 10 then char_of (48 + d) else char_of (87 + d))"

definition json_escape :: "char \<Rightarrow> string" where
  "json_escape c =
     (let n = (of_char c :: nat) in
      if n = 34 then [CHR 0x5C, CHR 0x22]
      else if n = 92 then [CHR 0x5C, CHR 0x5C]
      else if n = 10 then [CHR 0x5C, CHR ''n'']
      else if n = 13 then [CHR 0x5C, CHR ''r'']
      else if n = 9 then [CHR 0x5C, CHR ''t'']
      else if n = 8 then [CHR 0x5C, CHR ''b'']
      else if n = 12 then [CHR 0x5C, CHR ''f'']
      else if n < 32 \<or> 126 < n
        then [CHR 0x5C, CHR ''u'', CHR ''0'', CHR ''0'', hex_char (n div 16), hex_char (n mod 16)]
      else [c])"

definition json_string :: "string \<Rightarrow> string" where
  "json_string s = [CHR 0x22] @ concat (map json_escape s) @ [CHR 0x22]"

fun join :: "string \<Rightarrow> string list \<Rightarrow> string" where
  "join sep [] = []"
| "join sep [x] = x"
| "join sep (x # y # ys) = x @ sep @ join sep (y # ys)"

fun json_dumps :: "pyval \<Rightarrow> py_error + string"
and json_items :: "pyval list \<Rightarrow> py_error + string list"
and json_members :: "(string \<times> pyval) list \<Rightarrow> py_error + string list" where
  "json_dumps PNone = Inr ''null''"
| "json_dumps (PBool b) = Inr (if b then ''true'' else ''false'')"
| "json_dumps (PInt i) = Inr (show_int i)"
| "json_dumps PNaN = Inr ''NaN''"
| "json_dumps (PStr s) = Inr (json_string s)"
| "json_dumps (PList xs) =
     then_do (json_items xs) (\<lambda>ss. Inr (''['' @ join '', '' ss @ '']''))"
| "json_dumps (PDict d) =
     then_do (json_members d) (\<lambda>ss. Inr (''{'' @ join '', '' ss @ ''}''))"
| "json_dumps (PArray xs) = Inl TypeError"
| "json_dumps (PSeries r) = Inl TypeError"
| "json_items [] = Inr []"
| "json_items (x # xs) =
     then_do (json_dumps x) (\<lambda>s. then_do (json_items xs) (\<lambda>ss. Inr (s # ss)))"
| "json_members [] = Inr []"
| "json_members (kv # d) =
     then_do (json_dumps (snd kv))
       (\<lambda>s. then_do (json_members d) (\<lambda>ss. Inr ((json_string (fst kv) @ '': '' @ s) # ss)))"

text \<open>\<^verbatim>\<open>arr.tolist()\<close> on a one-dimensional object array: the elements, unchanged, in a list.\<close>

definition tolist :: "pyval \<Rightarrow> pyval" where
  "tolist v = (case v of PArray xs \<Rightarrow> PList xs | _ \<Rightarrow> v)"

section \<open>Storage\<close>

text \<open>
  A table is the list of its rows, each with the id its SERIAL column gave it, and the
  last value of that sequence. A row is the dict of parameters the script passes (column
  name, value). The model accepts every row. The constraints of the schema (foreign keys,
  column types and sizes, uniqueness) and the dtype pandas chooses for a column of a frame
  are not part of it: what it says about rows written holds for the real tables where the
  real insert accepts those rows as they are.
\<close>

type_synonym dbrow = "(string \<times> pyval) list"

record table =
  tbl_rows :: "(nat \<times> dbrow) list"
  tbl_serial :: nat

type_synonym database = "string \<Rightarrow> table"

definition empty_table :: table where
  "empty_table = \<lparr>tbl_rows = [], tbl_serial = 0\<rparr>"

text \<open>The database after \<^verbatim>\<open>create_relational_schema\<close>: every table dropped and created.\<close>

definition fresh_db :: database where
  "fresh_db = (\<lambda>t. empty_table)"

text \<open>\<^verbatim>\<open>INSERT INTO t ... RETURNING id\<close>.\<close>

definition insert_returning :: "string \<Rightarrow> dbrow \<Rightarrow> database \<Rightarrow> database \<times> nat" where
  "insert_returning t r db =
     (let i = Suc (tbl_serial (db t))
      in (db(t := \<lparr>tbl_rows = tbl_rows (db t) @ [(i, r)], tbl_serial = i\<rparr>), i))"

text \<open>\<^verbatim>\<open>pd.DataFrame(rows).to_sql(t, engine, if_exists='append', index=False)\<close>: the rows
  are appended in order; a NaN cell of the frame is written as NULL.\<close>

definition frame_row :: "dbrow \<Rightarrow> dbrow" where
  "frame_row r = map (\<lambda>(k, v). (k, if v = PNaN then PNone else v)) r"

definition to_sql :: "string \<Rightarrow> dbrow list \<Rightarrow> database \<Rightarrow> database" where
  "to_sql t rs db = fold (\<lambda>r d. fst (insert_returning t (frame_row r) d)) rs db"

text \<open>\<^verbatim>\<open>TRUNCATE TABLE t CASCADE\<close> (the sequence is not restarted).\<close>

definition truncate_table :: "string \<Rightarrow> database \<Rightarrow> database" where
  "truncate_table t db = db(t := (db t)\<lparr>tbl_rows := []\<rparr>)"

text \<open>
  \<^verbatim>\<open>{row[1]: row[0] for row in conn.execute("SELECT id, col FROM t").fetchall()}\<close>:
  for a key that occurs twice the later row wins. The key columns the scripts select
  (\<^verbatim>\<open>slug\<close>, \<^verbatim>\<open>display_name\<close>, \<^verbatim>\<open>name\<close>) are VARCHAR: a number or a boolean that was
  written comes back as its text, so a lookup with the number itself misses.
\<close>

fun as_varchar :: "pyval \<Rightarrow> pyval" where
  "as_varchar (PInt n) = PStr (show_int n)"
| "as_varchar (PBool b) = PStr (if b then ''true'' else ''false'')"
| "as_varchar v = v"

definition select_map :: "string \<Rightarrow> string \<Rightarrow> database \<Rightarrow> pydict" where
  "select_map t col db =
     fold (\<lambda>(i, r) m. pd_put m (as_varchar (dict_get r col PNone)) (PInt (int i)))
       (tbl_rows (db t)) []"

text \<open>\<^verbatim>\<open>SELECT id FROM t WHERE col = :v\<close>, then \<^verbatim>\<open>fetchone()\<close>: the first row whose column
  equals the value; SQL's \<^verbatim>\<open>=\<close> is never true of NULL.\<close>

definition select_id_where :: "string \<Rightarrow> string \<Rightarrow> pyval \<Rightarrow> database \<Rightarrow> nat option" where
  "select_id_where t col v db =
     (if v = PNone then None
      else map_option fst (find (\<lambda>(i, r). dict_get r col PNone = v) (tbl_rows (db t))))"

section \<open>Extraction blocks shared by the nested-data scripts\<close>

text \<open>
  Every script starts a record with \<^verbatim>\<open>person_data = safe_get(row, 'person', {})\<close>, where
  \<^verbatim>\<open>row\<close> is the Series of \<^verbatim>\<open>for idx, row in df.iterrows()\<close>, and
  \<^verbatim>\<open>investor_id = idx + 1\<close>. The index label \<^verbatim>\<open>idx\<close> is the position of the record, from 0
  (the RangeIndex of a frame read from a file).
\<close>

definition person_data_of :: "series \<Rightarrow> pyval" where
  "person_data_of row = safe_get (PSeries row) ''person'' (PDict [])"

definition investor_id_of :: "nat \<Rightarrow> pyval" where
  "investor_id_of idx = PInt (int idx + 1)"

definition synthetic_slug :: "nat \<Rightarrow> pyval" where
  "synthetic_slug idx = PStr (''person_'' @ show_nat idx)"

text \<open>
  Areas of interest, investment locations and stages:
  \<^verbatim>\<open>
  if isinstance(areas, np.ndarray) and areas.size > 0:      # is_valid_array(areas_data)
      for area in areas:
          if isinstance(area, dict):
              all_areas.append({'investor_id': investor_id,
                                'kind': safe_get(area, 'kind'),
                                'display_name': safe_get(area, 'display_name')})
  \<close>
\<close>

definition kind_rows :: "pyval \<Rightarrow> pyval \<Rightarrow> dbrow list" where
  "kind_rows investor_id arr =
     (if is_valid_array arr
      then map (\<lambda>x. [(''investor_id'', investor_id),
                      (''kind'', safe_get x ''kind'' PNone),
                      (''display_name'', safe_get x ''display_name'' PNone)])
               (filter is_dict (elements arr))
      else [])"

definition media_rows :: "pyval \<Rightarrow> pyval \<Rightarrow> dbrow list" where
  "media_rows investor_id arr =
     (if is_valid_array arr
      then map (\<lambda>m. [(''investor_id'', investor_id),
                      (''url'', safe_get m ''url'' PNone),
                      (''title'', safe_get m ''title'' PNone),
                      (''image_url'', safe_get m ''image_url'' PNone)])
               (filter is_dict (elements arr))
      else [])"

text \<open>Image URLs: \<^verbatim>\<open>if img and isinstance(img, str)\<close> takes the truth value first.\<close>

definition image_rows :: "pyval \<Rightarrow> bool \<Rightarrow> pyval \<Rightarrow> py_error + dbrow list" where
  "image_rows investor_id edit arr =
     (if is_valid_array arr
      then collect (\<lambda>img. then_do (truthy img) (\<lambda>t. Inr
              (if t \<and> is_str img
               then [[(''investor_id'', investor_id), (''url'', img),
                      (''is_edit_mode'', PBool edit)]]
               else [])))
             (elements arr)
      else Inr [])"

text \<open>\<^verbatim>\<open>safe_get(start_date, 'month') if isinstance(start_date, dict) else None\<close>.\<close>

definition date_part :: "pyval \<Rightarrow> string \<Rightarrow> pyval" where
  "date_part d key = (if is_dict d then safe_get d key PNone else PNone)"

section \<open>complete_population.py\<close>

record collected =
  all_areas :: "dbrow list"
  all_locations :: "dbrow list"
  all_stages :: "dbrow list"
  all_images :: "dbrow list"
  all_media :: "dbrow list"
  all_positions :: "dbrow list"
  all_degrees :: "dbrow list"
  all_investments :: "dbrow list"

definition no_rows :: collected where
  "no_rows = \<lparr>all_areas = [], all_locations = [], all_stages = [], all_images = [],
              all_media = [], all_positions = [], all_degrees = [], all_investments = []\<rparr>"

definition extend_rows :: "collected \<Rightarrow> collected \<Rightarrow> collected" where
  "extend_rows a b =
     \<lparr>all_areas = all_areas a @ all_areas b,
      all_locations = all_locations a @ all_locations b,
      all_stages = all_stages a @ all_stages b,
      all_images = all_images a @ all_images b,
      all_media = all_media a @ all_media b,
      all_positions = all_positions a @ all_positions b,
      all_degrees = all_degrees a @ all_degrees b,
      all_investments = all_investments a @ all_investments b\<rparr>"

text \<open>
  \<^verbatim>\<open>
  person_data = safe_get(row, 'person', {})
  person_id = None
  if isinstance(person_data, dict) and person_data:
      person_slug = safe_get(person_data, 'slug', f'person_{idx}')
      person_id = person_map.get(person_slug)
  \<close>
\<close>

definition cp_person_id :: "pydict \<Rightarrow> nat \<Rightarrow> series \<Rightarrow> py_error + pyval" where
  "cp_person_id person_map idx row =
     (let person_data = person_data_of row in
      if is_dict person_data \<and> truthy person_data = Inr True
      then pd_get person_map (safe_get person_data ''slug'' (synthetic_slug idx))
      else Inr PNone)"

text \<open>One element of \<^verbatim>\<open>positions\<close> (lines 151-169); \<^verbatim>\<open>... if company_data else None\<close>
  takes the truth value of the nested object.\<close>

definition cp_position :: "pyval \<Rightarrow> pyval \<Rightarrow> py_error + dbrow list" where
  "cp_position person_id pos =
     (if is_dict pos
      then (let company_data = safe_get pos ''company'' (PDict []);
                start_date = safe_get pos ''start_date'' (PDict []);
                end_date = safe_get pos ''end_date'' (PDict [])
            in then_do (truthy company_data) (\<lambda>c. Inr
                 [[(''person_id'', person_id),
                   (''company_name'', if c then safe_get company_data ''name'' PNone else PNone),
                   (''company_display_name'',
                      if c then safe_get company_data ''display_name'' PNone else PNone),
                   (''company_employee_count'',
                      if c then safe_get company_data ''total_employee_count'' PNone else PNone),
                   (''title'', safe_get pos ''title'' PNone),
                   (''start_month'', date_part start_date ''month''),
                   (''start_year'', date_part start_date ''year''),
                   (''end_month'', date_part end_date ''month''),
                   (''end_year'', date_part end_date ''year'')]]))
      else Inr [])"

definition cp_degree :: "pyval \<Rightarrow> pyval \<Rightarrow> py_error + dbrow list" where
  "cp_degree person_id deg =
     (if is_dict deg
      then (let school_data = safe_get deg ''school'' (PDict [])
            in then_do (truthy school_data) (\<lambda>c. Inr
                 [[(''person_id'', person_id),
                   (''school_name'', if c then safe_get school_data ''name'' PNone else PNone),
                   (''school_display_name'',
                      if c then safe_get school_data ''display_name'' PNone else PNone),
                   (''school_student_count'',
                      if c then safe_get school_data ''total_student_count'' PNone else PNone),
                   (''degree_name'', safe_get deg ''name'' PNone),
                   (''field_of_study'', safe_get deg ''field_of_study'' PNone)]]))
      else Inr [])"

text \<open>Positions and degrees sit under \<^verbatim>\<open>if person_id:\<close> (lines 147-186).\<close>

definition cp_positions :: "pyval \<Rightarrow> series \<Rightarrow> py_error + dbrow list" where
  "cp_positions person_id row =
     (if truthy person_id = Inr True \<and> is_valid_array (row_get row ''positions'')
      then collect (cp_position person_id) (elements (row_get row ''positions''))
      else Inr [])"

definition cp_degrees :: "pyval \<Rightarrow> series \<Rightarrow> py_error + dbrow list" where
  "cp_degrees person_id row =
     (if truthy person_id = Inr True \<and> is_valid_array (row_get row ''degrees'')
      then collect (cp_degree person_id) (elements (row_get row ''degrees''))
      else Inr [])"

text \<open>
  One edge of \<^verbatim>\<open>investments_on_record\<close> (lines 194-206):
  \<^verbatim>\<open>
  node = safe_get(edge, 'node', {})
  if isinstance(node, dict):
      total_raised = safe_get(node, 'total_raised', [])
      if isinstance(total_raised, np.ndarray):
          total_raised = total_raised.tolist()
      all_investments.append({
          'investor_id': investor_id,
          'company_display_name': safe_get(node, 'company_display_name'),
          'total_raised_json': json.dumps(total_raised) if total_raised else None})
  \<close>
\<close>

definition cp_investment :: "pyval \<Rightarrow> pyval \<Rightarrow> py_error + dbrow list" where
  "cp_investment investor_id edge =
     (if is_dict edge \<and> is_dict (safe_get edge ''node'' (PDict []))
      then (let node = safe_get edge ''node'' (PDict []);
                total_raised = tolist (safe_get node ''total_raised'' (PList []))
            in then_do (truthy total_raised) (\<lambda>t.
               then_do (if t then then_do (json_dumps total_raised) (\<lambda>s. Inr (PStr s))
                        else Inr PNone) (\<lambda>j. Inr
                 [[(''investor_id'', investor_id),
                   (''company_display_name'', safe_get node ''company_display_name'' PNone),
                   (''total_raised_json'', j)]])))
      else Inr [])"

definition cp_investments :: "pyval \<Rightarrow> series \<Rightarrow> py_error + dbrow list" where
  "cp_investments investor_id row =
     (let investments = row_get row ''investments_on_record'' in
      if is_dict investments \<and> is_valid_array (safe_get investments ''edges'' (PList []))
      then collect (cp_investment investor_id)
             (elements (safe_get investments ''edges'' (PList [])))
      else Inr [])"

text \<open>The body of the loop (lines 66-206). Nothing in it catches an exception.\<close>

definition cp_record :: "pydict \<Rightarrow> nat \<Rightarrow> series \<Rightarrow> py_error + collected" where
  "cp_record person_map idx row =
     (let investor_id = investor_id_of idx in
      then_do (cp_person_id person_map idx row) (\<lambda>person_id.
      then_do (image_rows investor_id False (row_get row ''image_urls'')) (\<lambda>images.
      then_do (image_rows investor_id True (row_get row ''image_urls_edit_mode'')) (\<lambda>edit_images.
      then_do (cp_positions person_id row) (\<lambda>positions.
      then_do (cp_degrees person_id row) (\<lambda>degrees.
      then_do (cp_investments investor_id row) (\<lambda>investments. Inr
        \<lparr>all_areas = kind_rows investor_id (row_get row ''areas_of_interest''),
         all_locations = kind_rows investor_id (row_get row ''investment_locations''),
         all_stages = kind_rows investor_id (row_get row ''stages''),
         all_images = images @ edit_images,
         all_media = media_rows investor_id (row_get row ''media_links''),
         all_positions = positions,
         all_degrees = degrees,
         all_investments = investments\<rparr>)))))))"

fun cp_loop :: "pydict \<Rightarrow> nat \<Rightarrow> series list \<Rightarrow> collected \<Rightarrow> py_error + collected" where
  "cp_loop person_map idx [] acc = Inr acc"
| "cp_loop person_map idx (row # rest) acc =
     then_do (cp_record person_map idx row)
       (\<lambda>c. cp_loop person_map (Suc idx) rest (extend_rows acc c))"

text \<open>
  After the loop (lines 245-311): the companies named by the collected positions, one
  dict entry per name, are appended to \<^verbatim>\<open>companies\<close>; the positions are then written with the
  id found under the name. The same for schools and degrees; \<open>unique_dims\<close> is that code
  with the column names as arguments.
  \<^verbatim>\<open>
  unique_companies = {}
  for pos in all_positions:
      if pos['company_name']:
          unique_companies[pos['company_name']] = {'name': ..., 'display_name': ...,
                                                   'total_employee_count': ...}
  \<close>
\<close>

fun unique_dims ::
  "string \<Rightarrow> string \<Rightarrow> string \<Rightarrow> string \<Rightarrow> dbrow list \<Rightarrow> (pyval \<times> dbrow) list
   \<Rightarrow> py_error + (pyval \<times> dbrow) list" where
  "unique_dims name_col display_col count_col count_out [] acc = Inr acc"
| "unique_dims name_col display_col count_col count_out (r # rs) acc =
     then_do (truthy (dict_get r name_col PNone)) (\<lambda>t.
       if t then
         (if hashable (dict_get r name_col PNone)
          then unique_dims name_col display_col count_col count_out rs
                 (pd_put acc (dict_get r name_col PNone)
                    [(''name'', dict_get r name_col PNone),
                     (''display_name'', dict_get r display_col PNone),
                     (count_out, dict_get r count_col PNone)])
          else Inl TypeError)
       else unique_dims name_col display_col count_col count_out rs acc)"

definition cp_store_positions :: "dbrow list \<Rightarrow> database \<Rightarrow> database \<times> py_error option" where
  "cp_store_positions positions db =
     (if positions = [] then (db, None)
      else case unique_dims ''company_name'' ''company_display_name''
                  ''company_employee_count'' ''total_employee_count'' positions [] of
        Inl e \<Rightarrow> (db, Some e)
      | Inr unique_companies \<Rightarrow>
          (let db1 = (if unique_companies \<noteq> []
                      then to_sql ''companies'' (map snd unique_companies) db else db);
               company_map = select_map ''companies'' ''name'' db1
           in case collect (\<lambda>pos.
                     then_do (pd_get company_map (dict_get pos ''company_name'' PNone))
                       (\<lambda>company_id. Inr
                          [[(''person_id'', dict_get pos ''person_id'' PNone),
                            (''company_id'', company_id),
                            (''title'', dict_get pos ''title'' PNone),
                            (''start_month'', dict_get pos ''start_month'' PNone),
                            (''start_year'', dict_get pos ''start_year'' PNone),
                            (''end_month'', dict_get pos ''end_month'' PNone),
                            (''end_year'', dict_get pos ''end_year'' PNone)]])) positions of
                Inl e \<Rightarrow> (db1, Some e)
              | Inr positions_with_fk \<Rightarrow> (to_sql ''positions'' positions_with_fk db1, None)))"

definition cp_store_degrees :: "dbrow list \<Rightarrow> database \<Rightarrow> database \<times> py_error option" where
  "cp_store_degrees degrees db =
     (if degrees = [] then (db, None)
      else case unique_dims ''school_name'' ''school_display_name''
                  ''school_student_count'' ''total_student_count'' degrees [] of
        Inl e \<Rightarrow> (db, Some e)
      | Inr unique_schools \<Rightarrow>
          (let db1 = (if unique_schools \<noteq> []
                      then to_sql ''schools'' (map snd unique_schools) db else db);
               school_map = select_map ''schools'' ''name'' db1
           in case collect (\<lambda>deg.
                     then_do (pd_get school_map (dict_get deg ''school_name'' PNone))
                       (\<lambda>school_id. Inr
                          [[(''person_id'', dict_get deg ''person_id'' PNone),
                            (''school_id'', school_id),
                            (''degree_name'', dict_get deg ''degree_name'' PNone),
                            (''field_of_study'', dict_get deg ''field_of_study'' PNone)]])) degrees of
                Inl e \<Rightarrow> (db1, Some e)
              | Inr degrees_with_fk \<Rightarrow> (to_sql ''degrees'' degrees_with_fk db1, None)))"

text \<open>\<^verbatim>\<open>if rows: pd.DataFrame(rows).to_sql(t, ...)\<close>.\<close>

definition to_sql_if :: "string \<Rightarrow> dbrow list \<Rightarrow> database \<Rightarrow> database" where
  "to_sql_if t rs db = (if rs = [] then db else to_sql t rs db)"

text \<open>
  \<^verbatim>\<open>process_all_nested_data\<close>: the eight child tables are truncated, \<^verbatim>\<open>person_map\<close> is
  read from \<^verbatim>\<open>persons\<close>, the loop collects, the lists are written. The result is the
  database when the function returns or is left by an exception, and that exception.
\<close>

definition process_all_nested_data :: "database \<Rightarrow> series list \<Rightarrow> database \<times> py_error option" where
  "process_all_nested_data db rows =
     (let db0 = fold truncate_table [''positions'', ''degrees'', ''investments'', ''areas_of_interest'',
                  ''investment_locations'', ''investor_stages'', ''image_urls'', ''media_links''] db;
          person_map = select_map ''persons'' ''slug'' db0
      in case cp_loop person_map 0 rows no_rows of
           Inl e \<Rightarrow> (db0, Some e)
         | Inr c \<Rightarrow>
             (let db1 = to_sql_if ''investments'' (all_investments c)
                         (to_sql_if ''media_links'' (all_media c)
                         (to_sql_if ''image_urls'' (all_images c)
                         (to_sql_if ''investor_stages'' (all_stages c)
                         (to_sql_if ''investment_locations'' (all_locations c)
                         (to_sql_if ''areas_of_interest'' (all_areas c) db0)))))
              in case cp_store_positions (all_positions c) db1 of
                   (db2, Some e) \<Rightarrow> (db2, Some e)
                 | (db2, None) \<Rightarrow> cp_store_degrees (all_degrees c) db2))"

section \<open>populate_nested_data_fixed.py\<close>

text \<open>
  The loop of \<^verbatim>\<open>process_nested_data\<close> wraps each record in \<^verbatim>\<open>try: ... except Exception\<close>
  and goes on with the next record. What the record had appended, inserted or registered
  before the exception stays. A block of the body therefore maps the state to the state it
  reached and the exception that stopped it, if any.
\<close>

record fx_state =
  fx_db :: database
  company_map :: pydict
  school_map :: pydict
  positions_batch :: "dbrow list"
  degrees_batch :: "dbrow list"
  investments_batch :: "dbrow list"
  areas_of_interest_batch :: "dbrow list"
  investment_locations_batch :: "dbrow list"
  investor_stages_batch :: "dbrow list"
  image_urls_batch :: "dbrow list"
  media_links_batch :: "dbrow list"
  fx_errors :: "(nat \<times> py_error) list"

definition fx_start :: "database \<Rightarrow> fx_state" where
  "fx_start db =
     \<lparr>fx_db = db, company_map = [], school_map = [], positions_batch = [],
      degrees_batch = [], investments_batch = [], areas_of_interest_batch = [],
      investment_locations_batch = [], investor_stages_batch = [], image_urls_batch = [],
      media_links_batch = [], fx_errors = []\<rparr>"

definition and_then :: "'s \<times> 'e option \<Rightarrow> ('s \<Rightarrow> 's \<times> 'e option) \<Rightarrow> 's \<times> 'e option" where
  "and_then r f = (case r of (s, None) \<Rightarrow> f s | (s, Some e) \<Rightarrow> (s, Some e))"

text \<open>A \<^verbatim>\<open>for\<close> loop appending to a batch: the rows of the elements before the one that
  raised are kept.\<close>

fun gather :: "('a \<Rightarrow> 'e + 'b list) \<Rightarrow> 'a list \<Rightarrow> 'b list \<times> 'e option" where
  "gather f [] = ([], None)"
| "gather f (x # xs) =
     (case f x of
        Inl e \<Rightarrow> ([], Some e)
      | Inr ys \<Rightarrow> (case gather f xs of (zs, r) \<Rightarrow> (ys @ zs, r)))"

text \<open>
  \<^verbatim>\<open>
  person_data = safe_get(row, 'person', {})
  person_id = None
  if isinstance(person_data, dict) and person_data:
      person_slug = safe_get(person_data, 'slug', f'person_{idx}')
      result = conn.execute(text("SELECT id FROM persons WHERE slug = :slug"), {'slug': person_slug})
      person_row = result.fetchone()
      if person_row:
          person_id = person_row[0]
  \<close>
\<close>

definition fx_person_id :: "database \<Rightarrow> nat \<Rightarrow> series \<Rightarrow> pyval" where
  "fx_person_id db idx row =
     (let person_data = person_data_of row in
      if is_dict person_data \<and> truthy person_data = Inr True
      then (case select_id_where ''persons'' ''slug''
                   (safe_get person_data ''slug'' (synthetic_slug idx)) db of
              Some i \<Rightarrow> PInt (int i)
            | None \<Rightarrow> PNone)
      else PNone)"

text \<open>
  The company of a position (lines 85-110) and the school of a degree (lines 132-157):
  \<^verbatim>\<open>
  company_id = None
  if isinstance(company_data, dict) and company_data:
      company_name = safe_get(company_data, 'name')
      if company_name:
          if company_name not in company_map:
              ... INSERT INTO companies (name, display_name, total_employee_count) ... RETURNING id
              company_id = company_result.fetchone()[0]
              company_map[company_name] = company_id
              conn.commit()
          else:
              company_id = company_map[company_name]
  \<close>
  The inner \<^verbatim>\<open>try\<close> around the insert guards a failing write, which is outside the model.
\<close>

definition fx_company ::
  "(pyval \<Rightarrow> string) \<Rightarrow> (string \<Rightarrow> int option) \<Rightarrow> pyval \<Rightarrow> fx_state
   \<Rightarrow> py_error + (fx_state \<times> pyval)" where
  "fx_company S F company_data st =
     (if is_dict company_data \<and> truthy company_data = Inr True
      then (let company_name = safe_get company_data ''name'' PNone in
            then_do (truthy company_name) (\<lambda>t.
              if t then
                then_do (pd_contains (company_map st) company_name) (\<lambda>known.
                  if \<not> known then
                    (let (db', i) = insert_returning ''companies''
                            [(''name'', company_name),
                             (''display_name'', safe_get company_data ''display_name'' company_name),
                             (''total_employee_count'',
                                safe_int_fixed S F
                                  (safe_get company_data ''total_employee_count'' PNone) PNone)]
                            (fx_db st)
                     in Inr (st\<lparr>fx_db := db',
                                company_map := pd_put (company_map st) company_name (PInt (int i))\<rparr>,
                             PInt (int i)))
                  else then_do (pd_get (company_map st) company_name)
                         (\<lambda>company_id. Inr (st, company_id)))
              else Inr (st, PNone)))
      else Inr (st, PNone))"

definition fx_school ::
  "(pyval \<Rightarrow> string) \<Rightarrow> (string \<Rightarrow> int option) \<Rightarrow> pyval \<Rightarrow> fx_state
   \<Rightarrow> py_error + (fx_state \<times> pyval)" where
  "fx_school S F school_data st =
     (if is_dict school_data \<and> truthy school_data = Inr True
      then (let school_name = safe_get school_data ''name'' PNone in
            then_do (truthy school_name) (\<lambda>t.
              if t then
                then_do (pd_contains (school_map st) school_name) (\<lambda>known.
                  if \<not> known then
                    (let (db', i) = insert_returning ''schools''
                            [(''name'', school_name),
                             (''display_name'', safe_get school_data ''display_name'' school_name),
                             (''total_student_count'',
                                safe_int_fixed S F
                                  (safe_get school_data ''total_student_count'' PNone) PNone)]
                            (fx_db st)
                     in Inr (st\<lparr>fx_db := db',
                                school_map := pd_put (school_map st) school_name (PInt (int i))\<rparr>,
                             PInt (int i)))
                  else then_do (pd_get (school_map st) school_name)
                         (\<lambda>school_id. Inr (st, school_id)))
              else Inr (st, PNone)))
      else Inr (st, PNone))"

text \<open>One element of \<^verbatim>\<open>positions_data\<close> (lines 83-124) and of \<^verbatim>\<open>degrees_data\<close>
  (lines 130-164).\<close>

definition fx_position ::
  "(pyval \<Rightarrow> string) \<Rightarrow> (string \<Rightarrow> int option) \<Rightarrow> pyval \<Rightarrow> pyval \<Rightarrow> fx_state
   \<Rightarrow> py_error + fx_state" where
  "fx_position S F person_id pos st =
     (if is_dict pos
      then then_do (fx_company S F (safe_get pos ''company'' (PDict [])) st)
             (\<lambda>(st', company_id).
                let start_date = safe_get pos ''start_date'' (PDict []);
                    end_date = safe_get pos ''end_date'' (PDict [])
                in Inr (st'\<lparr>positions_batch := positions_batch st' @
                          [[(''person_id'', person_id),
                            (''company_id'', company_id),
                            (''title'', safe_get pos ''title'' PNone),
                            (''start_month'', date_part start_date ''month''),
                            (''start_year'', date_part start_date ''year''),
                            (''end_month'', date_part end_date ''month''),
                            (''end_year'', date_part end_date ''year'')]]\<rparr>))
      else Inr st)"

definition fx_degree ::
  "(pyval \<Rightarrow> string) \<Rightarrow> (string \<Rightarrow> int option) \<Rightarrow> pyval \<Rightarrow> pyval \<Rightarrow> fx_state
   \<Rightarrow> py_error + fx_state" where
  "fx_degree S F person_id degree st =
     (if is_dict degree
      then then_do (fx_school S F (safe_get degree ''school'' (PDict [])) st)
             (\<lambda>(st', school_id).
                Inr (st'\<lparr>degrees_batch := degrees_batch st' @
                          [[(''person_id'', person_id),
                            (''school_id'', school_id),
                            (''degree_name'', safe_get degree ''name'' PNone),
                            (''field_of_study'', safe_get degree ''field_of_study'' PNone)]]\<rparr>))
      else Inr st)"

fun fx_each :: "('a \<Rightarrow> 's \<Rightarrow> 'e + 's) \<Rightarrow> 'a list \<Rightarrow> 's \<Rightarrow> 's \<times> 'e option" where
  "fx_each f [] st = (st, None)"
| "fx_each f (x # xs) st =
     (case f x st of Inl e \<Rightarrow> (st, Some e) | Inr st' \<Rightarrow> fx_each f xs st')"

text \<open>\<^verbatim>\<open>if is_valid_array(positions_data) and person_id:\<close> and the same for degrees.\<close>

definition fx_positions ::
  "(pyval \<Rightarrow> string) \<Rightarrow> (string \<Rightarrow> int option) \<Rightarrow> pyval \<Rightarrow> series \<Rightarrow> fx_state
   \<Rightarrow> fx_state \<times> py_error option" where
  "fx_positions S F person_id row st =
     (if is_valid_array (row_get row ''positions'') \<and> truthy person_id = Inr True
      then fx_each (fx_position S F person_id) (elements (row_get row ''positions'')) st
      else (st, None))"

definition fx_degrees ::
  "(pyval \<Rightarrow> string) \<Rightarrow> (string \<Rightarrow> int option) \<Rightarrow> pyval \<Rightarrow> series \<Rightarrow> fx_state
   \<Rightarrow> fx_state \<times> py_error option" where
  "fx_degrees S F person_id row st =
     (if is_valid_array (row_get row ''degrees'') \<and> truthy person_id = Inr True
      then fx_each (fx_degree S F person_id) (elements (row_get row ''degrees'')) st
      else (st, None))"

text \<open>
  One edge of \<^verbatim>\<open>investments_on_record\<close> (lines 172-183):
  \<^verbatim>\<open>
  company_name = safe_get(node, 'company_display_name')
  total_raised = safe_get(node, 'total_raised', [])
  if company_name:
      investments_batch.append({
          'investor_id': investor_id,
          'company_display_name': company_name,
          'total_raised_json': json.dumps(total_raised.tolist()
                                          if isinstance(total_raised, np.ndarray)
                                          else total_raised)
                               if total_raised is not None else None})
  \<close>
\<close>

definition fx_investment :: "pyval \<Rightarrow> pyval \<Rightarrow> py_error + dbrow list" where
  "fx_investment investor_id edge =
     (if is_dict edge \<and> is_dict (safe_get edge ''node'' (PDict []))
      then (let node = safe_get edge ''node'' (PDict []);
                company_name = safe_get node ''company_display_name'' PNone;
                total_raised = safe_get node ''total_raised'' (PList [])
            in then_do (truthy company_name) (\<lambda>t.
               if t then
                 then_do (if total_raised \<noteq> PNone
                          then then_do (json_dumps (tolist total_raised)) (\<lambda>s. Inr (PStr s))
                          else Inr PNone) (\<lambda>j. Inr
                   [[(''investor_id'', investor_id),
                     (''company_display_name'', company_name),
                     (''total_raised_json'', j)]])
               else Inr []))
      else Inr [])"

definition fx_investments :: "pyval \<Rightarrow> series \<Rightarrow> fx_state \<Rightarrow> fx_state \<times> py_error option" where
  "fx_investments investor_id row st =
     (let investments_data = row_get row ''investments_on_record'' in
      if is_dict investments_data \<and> is_valid_array (safe_get investments_data ''edges'' (PList []))
      then (case gather (fx_investment investor_id)
                   (elements (safe_get investments_data ''edges'' (PList []))) of
              (rs, r) \<Rightarrow> (st\<lparr>investments_batch := investments_batch st @ rs\<rparr>, r))
      else (st, None))"

definition fx_images :: "pyval \<Rightarrow> bool \<Rightarrow> pyval \<Rightarrow> fx_state \<Rightarrow> fx_state \<times> py_error option" where
  "fx_images investor_id edit arr st =
     (if is_valid_array arr
      then (case gather (\<lambda>url. then_do (truthy url) (\<lambda>t. Inr
                     (if t \<and> is_str url
                      then [[(''investor_id'', investor_id), (''url'', url),
                             (''is_edit_mode'', PBool edit)]]
                      else []))) (elements arr) of
              (rs, r) \<Rightarrow> (st\<lparr>image_urls_batch := image_urls_batch st @ rs\<rparr>, r))
      else (st, None))"

text \<open>The body of the \<^verbatim>\<open>try\<close> (lines 66-250), in the order of the source.\<close>

definition fx_record ::
  "(pyval \<Rightarrow> string) \<Rightarrow> (string \<Rightarrow> int option) \<Rightarrow> nat \<Rightarrow> series \<Rightarrow> fx_state
   \<Rightarrow> fx_state \<times> py_error option" where
  "fx_record S F idx row st =
     (let investor_id = investor_id_of idx;
          person_id = fx_person_id (fx_db st) idx row
      in and_then (fx_positions S F person_id row st) (\<lambda>st.
         and_then (fx_degrees S F person_id row st) (\<lambda>st.
         and_then (fx_investments investor_id row st) (\<lambda>st.
         and_then (st\<lparr>areas_of_interest_batch := areas_of_interest_batch st @
                         kind_rows investor_id (row_get row ''areas_of_interest''),
                       investment_locations_batch := investment_locations_batch st @
                         kind_rows investor_id (row_get row ''investment_locations''),
                       investor_stages_batch := investor_stages_batch st @
                         kind_rows investor_id (row_get row ''stages'')\<rparr>, None) (\<lambda>st.
         and_then (fx_images investor_id False (row_get row ''image_urls'') st) (\<lambda>st.
         and_then (fx_images investor_id True (row_get row ''image_urls_edit_mode'') st) (\<lambda>st.
           (st\<lparr>media_links_batch := media_links_batch st @
                  media_rows investor_id (row_get row ''media_links'')\<rparr>, None))))))))"

text \<open>\<^verbatim>\<open>except Exception as e: print(f"Error processing record {idx}: {e}"); continue\<close>.\<close>

fun fx_loop ::
  "(pyval \<Rightarrow> string) \<Rightarrow> (string \<Rightarrow> int option) \<Rightarrow> nat \<Rightarrow> series list \<Rightarrow> fx_state
   \<Rightarrow> fx_state" where
  "fx_loop S F idx [] st = st"
| "fx_loop S F idx (row # rest) st =
     (case fx_record S F idx row st of
        (st', None) \<Rightarrow> fx_loop S F (Suc idx) rest st'
      | (st', Some e) \<Rightarrow> fx_loop S F (Suc idx) rest (st'\<lparr>fx_errors := fx_errors st' @ [(idx, e)]\<rparr>))"

definition process_nested_data ::
  "(pyval \<Rightarrow> string) \<Rightarrow> (string \<Rightarrow> int option) \<Rightarrow> database \<Rightarrow> series list \<Rightarrow> fx_state" where
  "process_nested_data S F db rows =
     (let st = fx_loop S F 0 rows (fx_start db)
      in st\<lparr>fx_db :=
            to_sql_if ''media_links'' (media_links_batch st)
           (to_sql_if ''image_urls'' (image_urls_batch st)
           (to_sql_if ''investor_stages'' (investor_stages_batch st)
           (to_sql_if ''investment_locations'' (investment_locations_batch st)
           (to_sql_if ''areas_of_interest'' (areas_of_interest_batch st)
           (to_sql_if ''investments'' (investments_batch st)
           (to_sql_if ''degrees'' (degrees_batch st)
           (to_sql_if ''positions'' (positions_batch st) (fx_db st))))))))\<rparr>)"

section \<open>export_relational.py\<close>

text \<open>
  \<^verbatim>\<open>process_investor_data\<close> inserts row by row and commits after each record; an exception
  in a record is caught, the transaction rolled back, and the loop continues. A rollback
  removes the rows inserted since the last commit; the SERIAL sequences and the in-memory
  maps keep what the record did to them.
\<close>

record er_state =
  er_db :: database
  er_committed :: database
  er_person_map :: pydict
  er_firm_map :: pydict
  er_location_map :: pydict
  er_errors :: "(nat \<times> py_error) list"

definition bind_st ::
  "'s \<times> ('e + 'a) \<Rightarrow> ('s \<Rightarrow> 'a \<Rightarrow> 's \<times> ('e + 'b)) \<Rightarrow> 's \<times> ('e + 'b)" where
  "bind_st r f = (case r of (s, Inl e) \<Rightarrow> (s, Inl e) | (s, Inr x) \<Rightarrow> f s x)"

definition rollback :: "database \<Rightarrow> database \<Rightarrow> database" where
  "rollback committed now = (\<lambda>t. (committed t)\<lparr>tbl_serial := tbl_serial (now t)\<rparr>)"

text \<open>Lines 299-333. \<^verbatim>\<open>if person_data and isinstance(person_data, dict)\<close> takes the truth
  value first.\<close>

definition er_person ::
  "(pyval \<Rightarrow> string) \<Rightarrow> (string \<Rightarrow> int option) \<Rightarrow> nat \<Rightarrow> series \<Rightarrow> er_state
   \<Rightarrow> er_state \<times> (py_error + pyval)" where
  "er_person S F idx row st =
     (let person_data = person_data_of row in
      case truthy person_data of
        Inl e \<Rightarrow> (st, Inl e)
      | Inr t \<Rightarrow>
          if t \<and> is_dict person_data then
            (let person_slug = safe_get person_data ''slug'' (synthetic_slug idx) in
             case pd_contains (er_person_map st) person_slug of
               Inl e \<Rightarrow> (st, Inl e)
             | Inr known \<Rightarrow>
                 if \<not> known then
                   (let (db', i) = insert_returning ''persons''
                          [(''slug'', person_slug),
                           (''first_name'', safe_get person_data ''first_name'' PNone),
                           (''last_name'', safe_get person_data ''last_name'' PNone),
                           (''name'', safe_get person_data ''name'' PNone),
                           (''linkedin_url'', safe_get person_data ''linkedin_url'' PNone),
                           (''facebook_url'', PStr (S (safe_get person_data ''facebook_url'' (PStr [])))),
                           (''twitter_url'', safe_get person_data ''twitter_url'' PNone),
                           (''crunchbase_url'', safe_get person_data ''crunchbase_url'' PNone),
                           (''angellist_url'', safe_get person_data ''angellist_url'' PNone),
                           (''url'', safe_get person_data ''url'' PNone),
                           (''is_me'', safe_get person_data ''is_me'' (PBool False)),
                           (''first_degree_count'',
                              safe_int S F (safe_get person_data ''first_degree_count'' PNone) PNone),
                           (''is_on_target_list'',
                              safe_get person_data ''is_on_target_list'' (PBool False))]
                          (er_db st)
                    in (st\<lparr>er_db := db',
                           er_person_map := pd_put (er_person_map st) person_slug (PInt (int i))\<rparr>,
                        Inr (PInt (int i))))
                 else (st, pd_get (er_person_map st) person_slug))
          else (st, Inr PNone))"

text \<open>Lines 336-353: \<^verbatim>\<open>if location_name and location_name not in location_map: ... elif
  location_name: location_id = location_map[location_name]\<close>.\<close>

definition er_location :: "series \<Rightarrow> er_state \<Rightarrow> er_state \<times> (py_error + pyval)" where
  "er_location row st =
     (let location_data = safe_get (PSeries row) ''location'' (PDict []) in
      case truthy location_data of
        Inl e \<Rightarrow> (st, Inl e)
      | Inr t \<Rightarrow>
          if t \<and> is_dict location_data then
            (let location_name = safe_get location_data ''display_name'' PNone in
             case truthy location_name of
               Inl e \<Rightarrow> (st, Inl e)
             | Inr named \<Rightarrow>
                 if \<not> named then (st, Inr PNone)
                 else (case pd_contains (er_location_map st) location_name of
                   Inl e \<Rightarrow> (st, Inl e)
                 | Inr known \<Rightarrow>
                     if \<not> known then
                       (let (db', i) = insert_returning ''locations''
                              [(''display_name'', location_name),
                               (''kind'', safe_get location_data ''kind'' (PStr ''location''))]
                              (er_db st)
                        in (st\<lparr>er_db := db',
                               er_location_map :=
                                 pd_put (er_location_map st) location_name (PInt (int i))\<rparr>,
                            Inr (PInt (int i))))
                     else (st, pd_get (er_location_map st) location_name)))
          else (st, Inr PNone))"

text \<open>Lines 356-375.\<close>

definition er_firm :: "nat \<Rightarrow> series \<Rightarrow> er_state \<Rightarrow> er_state \<times> (py_error + pyval)" where
  "er_firm idx row st =
     (let firm_data = safe_get (PSeries row) ''firm'' (PDict []) in
      case truthy firm_data of
        Inl e \<Rightarrow> (st, Inl e)
      | Inr t \<Rightarrow>
          if t \<and> is_dict firm_data then
            (let firm_slug = safe_get firm_data ''slug'' (PStr (''firm_'' @ show_nat idx)) in
             case pd_contains (er_firm_map st) firm_slug of
               Inl e \<Rightarrow> (st, Inl e)
             | Inr known \<Rightarrow>
                 if \<not> known then
                   (let (db', i) = insert_returning ''firms''
                          [(''name'', safe_get firm_data ''name'' PNone),
                           (''slug'', firm_slug),
                           (''current_fund_size'', safe_get firm_data ''current_fund_size'' PNone)]
                          (er_db st)
                    in (st\<lparr>er_db := db',
                           er_firm_map := pd_put (er_firm_map st) firm_slug (PInt (int i))\<rparr>,
                        Inr (PInt (int i))))
                 else (st, pd_get (er_firm_map st) firm_slug))
          else (st, Inr PNone))"

text \<open>The columns of an investor row that are copied from the record, and its flags.\<close>

definition scalar_fields :: "string list" where
  "scalar_fields = [''position'', ''headline'', ''previous_position'', ''previous_firm'',
     ''min_investment'', ''max_investment'', ''target_investment'',
     ''areas_of_interest_freeform'', ''no_current_interest_freeform'']"

definition flag_fields :: "string list" where
  "flag_fields = [''claimed'', ''can_edit'', ''include_in_list'', ''in_founder_investor_list'',
     ''in_diverse_investor_list'', ''in_female_investor_list'',
     ''in_invests_in_diverse_founders_investor_list'',
     ''in_invests_in_female_founders_investor_list'', ''has_profile_vote'']"

text \<open>Lines 378-420: every column is read with \<^verbatim>\<open>safe_get(row, ...)\<close>.\<close>

definition er_investor_row ::
  "(pyval \<Rightarrow> string) \<Rightarrow> (string \<Rightarrow> int option) \<Rightarrow> series \<Rightarrow> pyval \<Rightarrow> pyval \<Rightarrow> pyval \<Rightarrow> dbrow" where
  "er_investor_row S F row person_id firm_id location_id =
     [(''person_id'', person_id), (''firm_id'', firm_id), (''location_id'', location_id)] @
     map (\<lambda>k. (k, safe_get (PSeries row) k PNone)) scalar_fields @
     [(''vote_count'', safe_int S F (safe_get (PSeries row) ''vote_count'' PNone) (PInt 0)),
      (''leads_rounds'', safe_get (PSeries row) ''leads_rounds'' PNone)] @
     map (\<lambda>k. (k, safe_get (PSeries row) k (PBool False))) flag_fields"

definition er_record ::
  "(pyval \<Rightarrow> string) \<Rightarrow> (string \<Rightarrow> int option) \<Rightarrow> nat \<Rightarrow> series \<Rightarrow> er_state
   \<Rightarrow> er_state \<times> (py_error + pyval)" where
  "er_record S F idx row st =
     bind_st (er_person S F idx row st) (\<lambda>st person_id.
     bind_st (er_location row st) (\<lambda>st location_id.
     bind_st (er_firm idx row st) (\<lambda>st firm_id.
       let (db', i) = insert_returning ''investors''
                        (er_investor_row S F row person_id firm_id location_id) (er_db st)
       in (st\<lparr>er_db := db'\<rparr>, Inr (PInt (int i))))))"

fun er_loop ::
  "(pyval \<Rightarrow> string) \<Rightarrow> (string \<Rightarrow> int option) \<Rightarrow> nat \<Rightarrow> series list \<Rightarrow> er_state
   \<Rightarrow> er_state" where
  "er_loop S F idx [] st = st"
| "er_loop S F idx (row # rest) st =
     (case er_record S F idx row st of
        (st', Inr investor_id) \<Rightarrow> er_loop S F (Suc idx) rest (st'\<lparr>er_committed := er_db st'\<rparr>)
      | (st', Inl e) \<Rightarrow>
          er_loop S F (Suc idx) rest
            (st'\<lparr>er_db := rollback (er_committed st') (er_db st'),
                 er_errors := er_errors st' @ [(idx, e)]\<rparr>))"

definition process_investor_data ::
  "(pyval \<Rightarrow> string) \<Rightarrow> (string \<Rightarrow> int option) \<Rightarrow> database \<Rightarrow> series list \<Rightarrow> er_state" where
  "process_investor_data S F db rows =
     er_loop S F 0 rows
       \<lparr>er_db = db, er_committed = db, er_person_map = [], er_firm_map = [],
        er_location_map = [], er_errors = []\<rparr>"

section \<open>export_relational_fast.py\<close>

text \<open>
  \<^verbatim>\<open>person = row.get('person', {}) if pd.notna(row.get('person')) else {}\<close>.
  \<^verbatim>\<open>pd.notna\<close> of None or NaN is False and of another scalar or a dict True; of an array
  it is an array of booleans, one per element, whose truth value numpy refuses unless it
  has one element. A list is first turned into an array, a nested list or array becoming
  a further dimension of it.
\<close>

fun notna :: "pyval \<Rightarrow> py_error + bool" where
  "notna PNone = Inr False"
| "notna PNaN = Inr False"
| "notna (PArray [x]) = Inr (x \<noteq> PNone \<and> x \<noteq> PNaN)"
| "notna (PArray xs) = Inl ValueError"
| "notna (PList [PList ys]) = notna (PList ys)"
| "notna (PList [PArray ys]) = notna (PList ys)"
| "notna (PList [x]) = Inr (x \<noteq> PNone \<and> x \<noteq> PNaN)"
| "notna (PList xs) = Inl ValueError"
| "notna (PSeries r) = Inl ValueError"
| "notna v = Inr True"

definition cell_or_empty :: "series \<Rightarrow> string \<Rightarrow> py_error + pyval" where
  "cell_or_empty row key =
     then_do (notna (row_get row key))
       (\<lambda>present. Inr (if present then dict_get row key (PDict []) else PDict []))"

text \<open>\<^verbatim>\<open>if isinstance(person, dict) and person\<close>.\<close>

definition nonempty_dict :: "pyval \<Rightarrow> bool" where
  "nonempty_dict v = (is_dict v \<and> truthy v = Inr True)"

text \<open>The first loop (lines 239-277): the drafts of one record.\<close>

definition fast_person_draft :: "(pyval \<Rightarrow> string) \<Rightarrow> nat \<Rightarrow> pyval \<Rightarrow> dbrow list" where
  "fast_person_draft S idx person =
     (if nonempty_dict person
      then [[(''slug'', safe_get person ''slug'' (synthetic_slug idx)),
             (''first_name'', safe_get person ''first_name'' PNone),
             (''last_name'', safe_get person ''last_name'' PNone),
             (''name'', safe_get person ''name'' PNone),
             (''linkedin_url'', safe_get person ''linkedin_url'' PNone),
             (''facebook_url'', PStr (S (safe_get person ''facebook_url'' (PStr [])))),
             (''twitter_url'', safe_get person ''twitter_url'' PNone),
             (''crunchbase_url'', safe_get person ''crunchbase_url'' PNone),
             (''angellist_url'', safe_get person ''angellist_url'' PNone),
             (''url'', safe_get person ''url'' PNone),
             (''is_me'', safe_get person ''is_me'' (PBool False)),
             (''first_degree_count'', safe_get person ''first_degree_count'' PNone),
             (''is_on_target_list'', safe_get person ''is_on_target_list'' (PBool False))]]
      else [])"

definition fast_firm_draft :: "nat \<Rightarrow> pyval \<Rightarrow> dbrow list" where
  "fast_firm_draft idx firm =
     (if nonempty_dict firm
      then [[(''name'', safe_get firm ''name'' PNone),
             (''slug'', safe_get firm ''slug'' (PStr (''firm_'' @ show_nat idx))),
             (''current_fund_size'', safe_get firm ''current_fund_size'' PNone)]]
      else [])"

definition fast_location_draft :: "pyval \<Rightarrow> dbrow list" where
  "fast_location_draft location =
     (if nonempty_dict location
      then [[(''display_name'', safe_get location ''display_name'' PNone),
             (''kind'', safe_get location ''kind'' (PStr ''location''))]]
      else [])"

fun fast_pass1 ::
  "(pyval \<Rightarrow> string) \<Rightarrow> nat \<Rightarrow> series list
   \<Rightarrow> py_error + (dbrow list \<times> dbrow list \<times> dbrow list)" where
  "fast_pass1 S idx [] = Inr ([], [], [])"
| "fast_pass1 S idx (row # rest) =
     then_do (cell_or_empty row ''person'') (\<lambda>person.
     then_do (cell_or_empty row ''firm'') (\<lambda>firm.
     then_do (cell_or_empty row ''location'') (\<lambda>location.
     then_do (fast_pass1 S (Suc idx) rest) (\<lambda>(ps, fs, ls). Inr
       (fast_person_draft S idx person @ ps,
        fast_firm_draft idx firm @ fs,
        fast_location_draft location @ ls)))))"

text \<open>
  \<^verbatim>\<open>pd.DataFrame(rows).drop_duplicates(subset=[col])\<close> keeps the first row of every value
  of the column, None and NaN counting as one value. The cells are compared for equality;
  an unhashable cell (a list, a dict) is compared like any other and raises nothing here.
\<close>

definition na_key :: "dbrow \<Rightarrow> string \<Rightarrow> pyval" where
  "na_key r col = (let v = dict_get r col PNone in if v = PNaN then PNone else v)"

fun first_per_key :: "string \<Rightarrow> pyval list \<Rightarrow> dbrow list \<Rightarrow> dbrow list" where
  "first_per_key col seen [] = []"
| "first_per_key col seen (r # rs) =
     (if na_key r col \<in> set seen then first_per_key col seen rs
      else r # first_per_key col (na_key r col # seen) rs)"

definition drop_duplicates :: "string \<Rightarrow> dbrow list \<Rightarrow> dbrow list" where
  "drop_duplicates col rs = first_per_key col [] rs"

text \<open>Lines 284-297: \<^verbatim>\<open>if persons_data: ...drop_duplicates(subset=['slug']).to_sql('persons', ...)\<close>.\<close>

definition fast_store_dim :: "string \<Rightarrow> string \<Rightarrow> dbrow list \<Rightarrow> database \<Rightarrow> database" where
  "fast_store_dim t col drafts db =
     (if drafts = [] then db else to_sql t (drop_duplicates col drafts) db)"

text \<open>
  Python's \<^verbatim>\<open>int(x)\<close> for \<^verbatim>\<open>'vote_count': int(row.get('vote_count', 0)) if
  pd.notna(row.get('vote_count')) else 0\<close>; the parsing of a string is the parameter
  \<open>int_of_str\<close> (None where \<^verbatim>\<open>int\<close> raises ValueError). A container, also an array of
  one element, raises TypeError.
\<close>

fun py_int :: "(string \<Rightarrow> int option) \<Rightarrow> pyval \<Rightarrow> py_error + int" where
  "py_int int_of_str (PInt n) = Inr n"
| "py_int int_of_str (PBool b) = Inr (if b then 1 else 0)"
| "py_int int_of_str (PStr s) =
     (case int_of_str s of Some n \<Rightarrow> Inr n | None \<Rightarrow> Inl ValueError)"
| "py_int int_of_str PNaN = Inl ValueError"
| "py_int int_of_str v = Inl TypeError"

definition fast_vote_count :: "(string \<Rightarrow> int option) \<Rightarrow> series \<Rightarrow> py_error + pyval" where
  "fast_vote_count int_of_str row =
     then_do (notna (row_get row ''vote_count'')) (\<lambda>present.
       if present
       then then_do (py_int int_of_str (dict_get row ''vote_count'' (PInt 0))) (\<lambda>n. Inr (PInt n))
       else Inr (PInt 0))"

text \<open>\<^verbatim>\<open>bool(row.get(flag, False))\<close> for each flag, in order.\<close>

definition fast_flags :: "series \<Rightarrow> py_error + dbrow" where
  "fast_flags row =
     collect (\<lambda>k. then_do (truthy (dict_get row k (PBool False))) (\<lambda>b. Inr [(k, PBool b)]))
       flag_fields"

text \<open>The body of the second loop (lines 318-362): the investor row of one record.\<close>

definition fast_investor ::
  "(string \<Rightarrow> int option) \<Rightarrow> pydict \<Rightarrow> pydict \<Rightarrow> pydict \<Rightarrow> nat \<Rightarrow> series
   \<Rightarrow> py_error + dbrow" where
  "fast_investor int_of_str person_map firm_map location_map idx row =
     then_do (cell_or_empty row ''person'') (\<lambda>person.
     then_do (cell_or_empty row ''firm'') (\<lambda>firm.
     then_do (cell_or_empty row ''location'') (\<lambda>location.
     then_do (if nonempty_dict person
              then pd_get person_map (safe_get person ''slug'' (synthetic_slug idx))
              else Inr PNone) (\<lambda>person_id.
     then_do (if nonempty_dict firm
              then pd_get firm_map (safe_get firm ''slug'' (PStr (''firm_'' @ show_nat idx)))
              else Inr PNone) (\<lambda>firm_id.
     then_do (if nonempty_dict location
              then pd_get location_map (safe_get location ''display_name'' PNone)
              else Inr PNone) (\<lambda>location_id.
     then_do (fast_vote_count int_of_str row) (\<lambda>vote_count.
     then_do (fast_flags row) (\<lambda>flags. Inr
       ([(''person_id'', person_id), (''firm_id'', firm_id), (''location_id'', location_id)] @
        map (\<lambda>k. (k, row_get row k)) scalar_fields @
        [(''vote_count'', vote_count), (''leads_rounds'', row_get row ''leads_rounds'')] @
        flags)))))))))"

text \<open>The second loop with its batches of 1000 (lines 311-375).\<close>

fun fast_pass2 ::
  "(string \<Rightarrow> int option) \<Rightarrow> pydict \<Rightarrow> pydict \<Rightarrow> pydict \<Rightarrow> nat \<Rightarrow> series list
   \<Rightarrow> dbrow list \<Rightarrow> database \<Rightarrow> database \<times> py_error option" where
  "fast_pass2 I pm fm lm idx [] investors_batch db =
     (if investors_batch \<noteq> [] then to_sql ''investors'' investors_batch db else db, None)"
| "fast_pass2 I pm fm lm idx (row # rest) investors_batch db =
     (case fast_investor I pm fm lm idx row of
        Inl e \<Rightarrow> (db, Some e)
      | Inr investor_data \<Rightarrow>
          if length (investors_batch @ [investor_data]) \<ge> 1000
          then fast_pass2 I pm fm lm (Suc idx) rest []
                 (to_sql ''investors'' (investors_batch @ [investor_data]) db)
          else fast_pass2 I pm fm lm (Suc idx) rest (investors_batch @ [investor_data]) db)"

definition extract_and_bulk_insert ::
  "(pyval \<Rightarrow> string) \<Rightarrow> (string \<Rightarrow> int option) \<Rightarrow> database \<Rightarrow> series list
   \<Rightarrow> database \<times> py_error option" where
  "extract_and_bulk_insert S I db rows =
     (case fast_pass1 S 0 rows of
        Inl e \<Rightarrow> (db, Some e)
      | Inr (persons_data, firms_data, locations_data) \<Rightarrow>
          (let db1 = fast_store_dim ''persons'' ''slug'' persons_data db;
               db2 = fast_store_dim ''firms'' ''slug'' firms_data db1;
               db3 = fast_store_dim ''locations'' ''display_name'' locations_data db2
           in fast_pass2 I (select_map ''persons'' ''slug'' db3) (select_map ''firms'' ''slug'' db3)
                (select_map ''locations'' ''display_name'' db3) 0 rows [] db3))"

section \<open>Properties of the helpers\<close>

lemma safe_get_dict: "safe_get (PDict d) key dflt = dict_get d key dflt"
  by (simp add: safe_get_def)

lemma safe_get_not_dict: "\<not> is_dict obj \<Longrightarrow> safe_get obj key dflt = dflt"
  by (cases obj) (simp_all add: safe_get_def)


text \<open>
  A read through \<open>safe_get\<close> whose container is not a mapping (the field was absent and
  read as None, is null, or has another type) gives the default that was passed, for every
  key; so does a read of a key the mapping lacks. \<open>safe_get\<close> is a total function into
  values: it has no exception to raise.
\<close>

lemma safe_get_resolves_to_default:
  "(\<not> is_dict obj \<longrightarrow> safe_get obj key dflt = dflt) \<and>
   (map_of d key = None \<longrightarrow> safe_get (PDict d) key dflt = dflt)"
  by (cases obj) (simp_all add: safe_get_def dict_get_def)

text \<open>
  Claim C9. \<open>safe_int\<close> (both versions) gives the default, not 0, for every value that is not
  truthy: the integer 0, the empty string, False, and every value whose truth value is
  refused. Called with the default None it gives None there. When the result is not the
  default, the value was truthy and the result is the integer its text parses to. The
  function is total: the bare \<^verbatim>\<open>except\<close> leaves no exception out.
\<close>

theorem safe_int_falsy_gives_default:
  "safe_int S F (PInt 0) dflt = dflt \<and> safe_int S F (PStr []) dflt = dflt \<and>
   safe_int S F (PBool False) dflt = dflt \<and> safe_int S F (PInt 0) PNone = PNone \<and>
   safe_int_fixed S F (PInt 0) dflt = dflt \<and> safe_int_fixed S F (PStr []) dflt = dflt \<and>
   safe_int_fixed S F (PBool False) dflt = dflt \<and>
   (truthy v \<noteq> Inr True \<longrightarrow> safe_int S F v dflt = dflt \<and> safe_int_fixed S F v dflt = dflt) \<and>
   (safe_int S F v dflt \<noteq> dflt \<longrightarrow>
      truthy v = Inr True \<and> (\<exists>n. F (S v) = Some n \<and> safe_int S F v dflt = PInt n)) \<and>
   (safe_int_fixed S F v dflt \<noteq> dflt \<longrightarrow>
      truthy v = Inr True \<and> (\<exists>n. F (S v) = Some n \<and> safe_int_fixed S F v dflt = PInt n))"
  by (auto simp: safe_int_def safe_int_fixed_def split: sum.splits option.splits)

theorem safe_int_falsy_gives_default_witness:
  "truthy (PInt 0) \<noteq> Inr True \<and>
   safe_int (\<lambda>v. ''0'') (\<lambda>s. Some 0) (PInt 0) PNone = PNone \<and>
   safe_int (\<lambda>v. ''42'') (\<lambda>s. Some 42) (PStr ''42'') PNone \<noteq> PNone \<and>
   safe_int (\<lambda>v. ''42'') (\<lambda>s. Some 42) (PStr ''42'') PNone = PInt 42 \<and>
   safe_int_fixed (\<lambda>v. ''42'') (\<lambda>s. Some 42) (PStr ''42'') PNone = PInt 42"
  using safe_int_falsy_gives_default [of "\<lambda>v. ''0''" "\<lambda>s. Some 0" PNone "PInt 0"]
        safe_int_falsy_gives_default [of "\<lambda>v. ''42''" "\<lambda>s. Some 42" PNone "PStr ''42''"]
  by (simp add: safe_int_def safe_int_fixed_def strip_def is_space_def)

section \<open>The person never resolves in the nested-data scripts\<close>

lemma then_do_Inr [simp]: "then_do (Inr x) f = f x"
  by (simp add: then_do_def)

lemma then_do_Inl [simp]: "then_do (Inl e) f = Inl e"
  by (simp add: then_do_def)

lemma and_then_None [simp]: "and_then (s, None) f = f s"
  by (simp add: and_then_def)

lemma and_then_Some [simp]: "and_then (s, Some e) f = (s, Some e)"
  by (simp add: and_then_def)

lemma person_data_of_series [simp]: "person_data_of row = PDict []"
  by (simp add: person_data_of_def safe_get_def)

lemma cp_person_id_unresolved [simp]: "cp_person_id person_map idx row = Inr PNone"
  by (simp add: cp_person_id_def)

lemma fx_person_id_unresolved [simp]: "fx_person_id db idx row = PNone"
  by (simp add: fx_person_id_def)

lemma cp_positions_unresolved:
  "truthy person_id \<noteq> Inr True \<Longrightarrow> cp_positions person_id row = Inr []"
  by (simp add: cp_positions_def)

lemma cp_degrees_unresolved:
  "truthy person_id \<noteq> Inr True \<Longrightarrow> cp_degrees person_id row = Inr []"
  by (simp add: cp_degrees_def)

lemma fx_positions_unresolved:
  "truthy person_id \<noteq> Inr True \<Longrightarrow> fx_positions S F person_id row st = (st, None)"
  by (simp add: fx_positions_def)

lemma fx_degrees_unresolved:
  "truthy person_id \<noteq> Inr True \<Longrightarrow> fx_degrees S F person_id row st = (st, None)"
  by (simp add: fx_degrees_def)

lemma then_do_eq_Inr: "(then_do m f = Inr y) = (\<exists>x. m = Inr x \<and> f x = Inr y)"
  by (cases m) simp_all

lemma cp_record_no_career:
  "cp_record pm idx row = Inr c \<Longrightarrow> all_positions c = [] \<and> all_degrees c = []"
  by (auto simp: cp_record_def Let_def cp_positions_unresolved cp_degrees_unresolved
        then_do_eq_Inr)

lemma and_then_keeps:
  assumes "P (fst r)" and "\<And>s. P s \<Longrightarrow> P (fst (f s))"
  shows "P (fst (and_then r f))"
  using assms by (cases r; cases "snd r") (auto simp: and_then_def)

lemma fx_investments_batches:
  "positions_batch (fst (fx_investments iid row st)) = positions_batch st \<and>
   degrees_batch (fst (fx_investments iid row st)) = degrees_batch st"
  by (simp add: fx_investments_def Let_def split: prod.splits)

lemma fx_images_batches:
  "positions_batch (fst (fx_images iid e arr st)) = positions_batch st \<and>
   degrees_batch (fst (fx_images iid e arr st)) = degrees_batch st"
  by (simp add: fx_images_def split: prod.splits)

lemma fx_record_no_career:
  "positions_batch (fst (fx_record S F idx row st)) = positions_batch st \<and>
   degrees_batch (fst (fx_record S F idx row st)) = degrees_batch st"
  unfolding fx_record_def Let_def fx_person_id_unresolved
  apply (simp only: fx_positions_unresolved fx_degrees_unresolved truthy.simps sum.inject
           simp_thms and_then_None)
  apply (rule and_then_keeps)
   apply (rule fx_investments_batches)
  apply (rule and_then_keeps)
   apply (simp add: fx_images_batches)
  apply (rule and_then_keeps)
   apply (simp add: fx_images_batches)
  apply simp
  done


lemma cell_or_empty_non_dict:
  "\<not> is_dict (row_get row k) \<Longrightarrow> cell_or_empty row k = Inr p \<Longrightarrow> \<not> nonempty_dict p"
  by (auto simp: cell_or_empty_def row_get_def dict_get_def nonempty_dict_def then_do_eq_Inr
           split: option.splits if_splits)

lemma fast_investor_orphan:
  assumes "\<not> is_dict (row_get row ''person'')"
    and "fast_investor I pm fm lm idx row = Inr investor_data"
  shows "map_of investor_data ''person_id'' = Some PNone"
proof -
  from assms(2) obtain person where p: "cell_or_empty row ''person'' = Inr person"
    by (auto simp: fast_investor_def then_do_eq_Inr)
  have "\<not> nonempty_dict person"
    using cell_or_empty_non_dict [OF assms(1) p] .
  with assms(2) p show ?thesis
    by (auto simp: fast_investor_def then_do_eq_Inr)
qed

text \<open>
  A record whose \<^verbatim>\<open>person\<close> cell is absent, null or not a mapping resolves no person in
  complete_population.py and populate_nested_data_fixed.py and adds no position and no
  degree row in either; where export_relational_fast.py builds an investor row for it, the
  row has a null \<^verbatim>\<open>person_id\<close>. Whatever the record, position and degree rows are added
  only under a truthy \<^verbatim>\<open>person_id\<close>.
\<close>

lemma orphan_policy:
  "(\<not> is_dict (row_get row ''person'') \<longrightarrow>
      cp_person_id person_map idx row = Inr PNone \<and>
      fx_person_id db idx row = PNone \<and>
      (\<forall>c. cp_record person_map idx row = Inr c \<longrightarrow> all_positions c = [] \<and> all_degrees c = []) \<and>
      positions_batch (fst (fx_record S F idx row st)) = positions_batch st \<and>
      degrees_batch (fst (fx_record S F idx row st)) = degrees_batch st \<and>
      (\<forall>investor_data. fast_investor I pm fm lm idx row = Inr investor_data \<longrightarrow>
          map_of investor_data ''person_id'' = Some PNone)) \<and>
   (truthy person_id \<noteq> Inr True \<longrightarrow>
      cp_positions person_id row = Inr [] \<and> cp_degrees person_id row = Inr [] \<and>
      fx_positions S F person_id row st = (st, None) \<and>
      fx_degrees S F person_id row st = (st, None))"
  using cp_record_no_career [of person_map idx row] fx_record_no_career [of S F idx row st]
    fast_investor_orphan [of row I pm fm lm idx]
  by (simp add: cp_positions_unresolved cp_degrees_unresolved fx_positions_unresolved
        fx_degrees_unresolved)

section \<open>Nested arrays that are absent, null or empty\<close>

lemma empty_shape_blocks:
  assumes "v = PNone \<or> v = PArray []"
  shows "\<not> is_valid_array v" and "\<not> is_dict v" and "kind_rows i v = []" and "media_rows i v = []"
    and "image_rows i e v = Inr []" and "fx_images i e v st = (st, None)"
  using assms
  by (auto simp: is_valid_array_def kind_rows_def media_rows_def image_rows_def fx_images_def)

lemma same_cells:
  assumes "row_get r1 f = PNone \<or> row_get r1 f = PArray []"
    and "row_get r2 f = PNone \<or> row_get r2 f = PArray []"
    and "\<forall>k. k \<noteq> f \<longrightarrow> row_get r1 k = row_get r2 k"
  shows "kind_rows i (row_get r1 k) = kind_rows i (row_get r2 k)"
    and "media_rows i (row_get r1 k) = media_rows i (row_get r2 k)"
    and "image_rows i e (row_get r1 k) = image_rows i e (row_get r2 k)"
    and "fx_images i e (row_get r1 k) st = fx_images i e (row_get r2 k) st"
    and "cp_positions pid r1 = cp_positions pid r2"
    and "cp_degrees pid r1 = cp_degrees pid r2"
    and "cp_investments i r1 = cp_investments i r2"
    and "fx_positions S F pid r1 st = fx_positions S F pid r2 st"
    and "fx_degrees S F pid r1 st = fx_degrees S F pid r2 st"
    and "fx_investments i r1 st = fx_investments i r2 st"
proof -
  have cell: "\<And>k. row_get r1 k = row_get r2 k \<or>
      ((row_get r1 k = PNone \<or> row_get r1 k = PArray []) \<and>
       (row_get r2 k = PNone \<or> row_get r2 k = PArray []))"
    using assms by metis
  show "kind_rows i (row_get r1 k) = kind_rows i (row_get r2 k)"
    using cell [of k] empty_shape_blocks(3) by metis
  show "media_rows i (row_get r1 k) = media_rows i (row_get r2 k)"
    using cell [of k] empty_shape_blocks(4) by metis
  show "image_rows i e (row_get r1 k) = image_rows i e (row_get r2 k)"
    using cell [of k] empty_shape_blocks(5) by metis
  show "fx_images i e (row_get r1 k) st = fx_images i e (row_get r2 k) st"
    using cell [of k] empty_shape_blocks(6) by metis
  show "cp_positions pid r1 = cp_positions pid r2"
    using cell [of "''positions''"] by (auto simp: cp_positions_def is_valid_array_def)
  show "cp_degrees pid r1 = cp_degrees pid r2"
    using cell [of "''degrees''"] by (auto simp: cp_degrees_def is_valid_array_def)
  show "cp_investments i r1 = cp_investments i r2"
    using cell [of "''investments_on_record''"] by (auto simp: cp_investments_def Let_def)
  show "fx_positions S F pid r1 st = fx_positions S F pid r2 st"
    using cell [of "''positions''"] by (auto simp: fx_positions_def is_valid_array_def)
  show "fx_degrees S F pid r1 st = fx_degrees S F pid r2 st"
    using cell [of "''degrees''"] by (auto simp: fx_degrees_def is_valid_array_def)
  show "fx_investments i r1 st = fx_investments i r2 st"
    using cell [of "''investments_on_record''"] by (auto simp: fx_investments_def Let_def)
qed




section \<open>Storage and the investor rows of export_relational_fast.py\<close>

lemma insert_returning_other:
  "t' \<noteq> t \<Longrightarrow> fst (insert_returning t r db) t' = db t'"
  by (simp add: insert_returning_def Let_def)

lemma insert_returning_same:
  "tbl_rows (fst (insert_returning t r db) t) = tbl_rows (db t) @ [(Suc (tbl_serial (db t)), r)] \<and>
   tbl_serial (fst (insert_returning t r db) t) = Suc (tbl_serial (db t))"
  by (simp add: insert_returning_def Let_def)

lemma to_sql_Nil [simp]: "to_sql t [] db = db"
  by (simp add: to_sql_def)

lemma to_sql_Cons:
  "to_sql t (r # rs) db = to_sql t rs (fst (insert_returning t (frame_row r) db))"
  by (simp add: to_sql_def)

lemma to_sql_append: "to_sql t (xs @ ys) db = to_sql t ys (to_sql t xs db)"
  by (simp add: to_sql_def)

lemma to_sql_other: "t' \<noteq> t \<Longrightarrow> to_sql t rs db t' = db t'"
  by (induction rs arbitrary: db) (simp_all add: to_sql_Cons insert_returning_other)

lemma zip_upt_Cons:
  "zip [a..<a + Suc n] (x # xs) = (a, x) # zip [Suc a..<Suc a + n] xs"
  by (simp add: upt_conv_Cons del: upt_Suc)

lemma to_sql_same:
  "tbl_rows (to_sql t rs db t) =
     tbl_rows (db t) @ zip [Suc (tbl_serial (db t)) ..< Suc (tbl_serial (db t)) + length rs]
                           (map frame_row rs) \<and>
   tbl_serial (to_sql t rs db t) = tbl_serial (db t) + length rs"
proof (induction rs arbitrary: db)
  case Nil
  show ?case by simp
next
  case (Cons r rs)
  have z: "zip [Suc (tbl_serial (db t))..<Suc (tbl_serial (db t)) + Suc (length rs)]
             (frame_row r # map frame_row rs) =
           (Suc (tbl_serial (db t)), frame_row r) #
           zip [Suc (Suc (tbl_serial (db t)))..<Suc (Suc (tbl_serial (db t))) + length rs]
             (map frame_row rs)"
    by (rule zip_upt_Cons)
  show ?case
    using Cons.IH [of "fst (insert_returning t (frame_row r) db)"] z
    by (simp add: to_sql_Cons insert_returning_same del: upt_Suc)
qed

lemma fast_pass2_result:
  "fast_pass2 I pm fm lm idx rows batch db = (db', None) \<Longrightarrow>
     \<exists>invs. length invs = length rows \<and>
       (\<forall>i < length rows. fast_investor I pm fm lm (idx + i) (rows ! i) = Inr (invs ! i)) \<and>
       db' = to_sql ''investors'' (batch @ invs) db"
proof (induction rows arbitrary: idx batch db)
  case Nil
  then show ?case by (auto split: if_splits)
next
  case (Cons row rest)
  from Cons.prems obtain inv where inv: "fast_investor I pm fm lm idx row = Inr inv"
    by (cases "fast_investor I pm fm lm idx row") auto
  show ?case
  proof (cases "length (batch @ [inv]) \<ge> 1000")
    case True
    with Cons.prems inv
    have "fast_pass2 I pm fm lm (Suc idx) rest [] (to_sql ''investors'' (batch @ [inv]) db) = (db', None)"
      by simp
    from Cons.IH [OF this] obtain invs where
      a: "length invs = length rest"
      and b: "\<forall>i < length rest. fast_investor I pm fm lm (Suc idx + i) (rest ! i) = Inr (invs ! i)"
      and c: "db' = to_sql ''investors'' ([] @ invs) (to_sql ''investors'' (batch @ [inv]) db)"
      by blast
    have "\<forall>i < length (row # rest). fast_investor I pm fm lm (idx + i) ((row # rest) ! i) = Inr ((inv # invs) ! i)"
      using inv b by (auto simp: nth_Cons split: nat.splits)
    moreover have "db' = to_sql ''investors'' (batch @ inv # invs) db"
      using c to_sql_append [of "''investors''" "batch @ [inv]" invs db] by simp
    ultimately show ?thesis
      using a by (intro exI [of _ "inv # invs"]) simp
  next
    case False
    with Cons.prems inv
    have "fast_pass2 I pm fm lm (Suc idx) rest (batch @ [inv]) db = (db', None)"
      by simp
    from Cons.IH [OF this] obtain invs where
      a: "length invs = length rest"
      and b: "\<forall>i < length rest. fast_investor I pm fm lm (Suc idx + i) (rest ! i) = Inr (invs ! i)"
      and c: "db' = to_sql ''investors'' ((batch @ [inv]) @ invs) db"
      by blast
    have "\<forall>i < length (row # rest). fast_investor I pm fm lm (idx + i) ((row # rest) ! i) = Inr ((inv # invs) ! i)"
      using inv b by (auto simp: nth_Cons split: nat.splits)
    moreover have "db' = to_sql ''investors'' (batch @ inv # invs) db"
      using c by simp
    ultimately show ?thesis
      using a by (intro exI [of _ "inv # invs"]) simp
  qed
qed

lemma fast_store_dim_other:
  "t' \<noteq> t \<Longrightarrow> fast_store_dim t col drafts db t' = db t'"
  by (simp add: fast_store_dim_def to_sql_other)

lemma select_map_cong: "db t = db' t \<Longrightarrow> select_map t col db = select_map t col db'"
  by (simp add: select_map_def)

text \<open>
  Whenever \<^verbatim>\<open>extract_and_bulk_insert\<close> returns, on a database fresh from the schema, the
  investors table of the model holds one row per record, in source order; the row of the
  i-th record (counting from 1) has id i, and i is the \<^verbatim>\<open>investor_id = idx + 1\<close> that the
  nested-data scripts compute for the record.
\<close>

lemma investor_rows_when_returning:
  assumes "extract_and_bulk_insert S I fresh_db rows = (db, None)"
  shows "map fst (tbl_rows (db ''investors'')) = [1..<Suc (length rows)] \<and>
         (\<forall>i < length rows.
            \<exists>investor_data.
              fast_investor I (select_map ''persons'' ''slug'' db) (select_map ''firms'' ''slug'' db)
                (select_map ''locations'' ''display_name'' db) i (rows ! i) = Inr investor_data \<and>
              tbl_rows (db ''investors'') ! i = (Suc i, frame_row investor_data) \<and>
              investor_id_of i = PInt (int (Suc i)))"
proof -
  from assms obtain ps fs ls where p1: "fast_pass1 S 0 rows = Inr (ps, fs, ls)"
    by (cases "fast_pass1 S 0 rows") (auto simp: extract_and_bulk_insert_def)
  define db3 where "db3 = fast_store_dim ''locations'' ''display_name'' ls
     (fast_store_dim ''firms'' ''slug'' fs (fast_store_dim ''persons'' ''slug'' ps fresh_db))"
  from assms p1 have r3:
    "fast_pass2 I (select_map ''persons'' ''slug'' db3) (select_map ''firms'' ''slug'' db3)
       (select_map ''locations'' ''display_name'' db3) 0 rows [] db3 = (db, None)"
    by (simp add: extract_and_bulk_insert_def db3_def Let_def)
  have inv3: "db3 ''investors'' = empty_table"
    by (simp add: db3_def fast_store_dim_other fresh_db_def)
  from fast_pass2_result [OF r3] obtain invs where
    a: "length invs = length rows"
    and b: "\<forall>i < length rows. fast_investor I (select_map ''persons'' ''slug'' db3)
               (select_map ''firms'' ''slug'' db3) (select_map ''locations'' ''display_name'' db3)
               (0 + i) (rows ! i) = Inr (invs ! i)"
    and c: "db = to_sql ''investors'' ([] @ invs) db3"
    by blast
  have maps: "select_map ''persons'' ''slug'' db = select_map ''persons'' ''slug'' db3"
    "select_map ''firms'' ''slug'' db = select_map ''firms'' ''slug'' db3"
    "select_map ''locations'' ''display_name'' db = select_map ''locations'' ''display_name'' db3"
  proof -
    have "db ''persons'' = db3 ''persons''" "db ''firms'' = db3 ''firms''"
      "db ''locations'' = db3 ''locations''"
      using c by (simp_all add: to_sql_other)
    then show "select_map ''persons'' ''slug'' db = select_map ''persons'' ''slug'' db3"
      "select_map ''firms'' ''slug'' db = select_map ''firms'' ''slug'' db3"
      "select_map ''locations'' ''display_name'' db = select_map ''locations'' ''display_name'' db3"
      by (simp_all add: select_map_def)
  qed
  have rows: "tbl_rows (db ''investors'') = zip [1..<Suc (length rows)] (map frame_row invs)"
    using c to_sql_same [of "''investors''" invs db3] inv3 a by (simp add: empty_table_def)
  have ids: "map fst (tbl_rows (db ''investors'')) = [1..<Suc (length rows)]"
    using rows a by simp
  have each: "\<forall>i < length rows. tbl_rows (db ''investors'') ! i = (Suc i, frame_row (invs ! i))"
    using rows a by (simp del: upt_Suc)
  show ?thesis
    using ids each b maps by (simp add: investor_id_of_def)
qed

section \<open>Investments\<close>




text \<open>
  Claim C5 fails in complete_population.py. Its loop appends an investment row for every
  edge whose node is a dict and never looks at the company name; the sibling
  populate_nested_data_fixed.py has \<^verbatim>\<open>if company_name:\<close> and adds nothing. For one record
  whose only edge has an empty node, the first script writes an investment row with a null
  \<^verbatim>\<open>company_display_name\<close>, the second writes none.
\<close>

theorem complete_population_keeps_nameless_investment:
  "cp_investments (investor_id_of 0)
     [(''investments_on_record'', PDict [(''edges'', PArray [PDict [(''node'', PDict [])]])])] =
     Inr [[(''investor_id'', PInt 1), (''company_display_name'', PNone),
           (''total_raised_json'', PNone)]] \<and>
   tbl_rows (fst (process_all_nested_data fresh_db
     [[(''investments_on_record'', PDict [(''edges'', PArray [PDict [(''node'', PDict [])]])])]])
       ''investments'') =
     [(1, [(''investor_id'', PInt 1), (''company_display_name'', PNone),
           (''total_raised_json'', PNone)])] \<and>
   tbl_rows (fx_db (process_nested_data S F fresh_db
     [[(''investments_on_record'', PDict [(''edges'', PArray [PDict [(''node'', PDict [])]])])]])
       ''investments'') = []"
  by code_simp

section \<open>A record that raises\<close>

text \<open>
  Claim C4 fails in complete_population.py, whose loop has no \<^verbatim>\<open>try\<close>. The first record
  below carries a funding payload that is an array of arrays: \<^verbatim>\<open>tolist()\<close> leaves the inner
  array in place and \<^verbatim>\<open>json.dumps\<close> raises TypeError. complete_population.py leaves the
  loop with that exception and writes nothing, not even the area of the second record;
  populate_nested_data_fixed.py logs the exception under index 0 and writes the second
  record's area.
\<close>

theorem complete_population_aborts_on_bad_record:
  "snd (process_all_nested_data fresh_db
     [[(''investments_on_record'', PDict [(''edges'', PArray [PDict [(''node'',
          PDict [(''company_display_name'', PStr ''Acme''),
                 (''total_raised'', PArray [PArray [PStr ''1'', PStr ''2'']])])]])])],
      [(''areas_of_interest'',
        PArray [PDict [(''kind'', PStr ''sector''), (''display_name'', PStr ''AI'')]])]])
     = Some TypeError \<and>
   tbl_rows (fst (process_all_nested_data fresh_db
     [[(''investments_on_record'', PDict [(''edges'', PArray [PDict [(''node'',
          PDict [(''company_display_name'', PStr ''Acme''),
                 (''total_raised'', PArray [PArray [PStr ''1'', PStr ''2'']])])]])])],
      [(''areas_of_interest'',
        PArray [PDict [(''kind'', PStr ''sector''), (''display_name'', PStr ''AI'')]])]])
      ''areas_of_interest'') = [] \<and>
   fx_errors (process_nested_data S F fresh_db
     [[(''investments_on_record'', PDict [(''edges'', PArray [PDict [(''node'',
          PDict [(''company_display_name'', PStr ''Acme''),
                 (''total_raised'', PArray [PArray [PStr ''1'', PStr ''2'']])])]])])],
      [(''areas_of_interest'',
        PArray [PDict [(''kind'', PStr ''sector''), (''display_name'', PStr ''AI'')]])]])
     = [(0, TypeError)] \<and>
   tbl_rows (fx_db (process_nested_data S F fresh_db
     [[(''investments_on_record'', PDict [(''edges'', PArray [PDict [(''node'',
          PDict [(''company_display_name'', PStr ''Acme''),
                 (''total_raised'', PArray [PArray [PStr ''1'', PStr ''2'']])])]])])],
      [(''areas_of_interest'',
        PArray [PDict [(''kind'', PStr ''sector''), (''display_name'', PStr ''AI'')]])]])
      ''areas_of_interest'') =
     [(1, [(''investor_id'', PInt 2), (''kind'', PStr ''sector''), (''display_name'', PStr ''AI'')])]"
  by code_simp

section \<open>What \<^verbatim>\<open>safe_get(row, ...)\<close> does to the dimensions\<close>

text \<open>
  Claim C1 fails in export_relational.py. \<^verbatim>\<open>process_investor_data\<close> reads the person, the
  firm and the location of a record with \<^verbatim>\<open>safe_get(row, ...)\<close>; the row is a Series, so each
  read gives the empty default and no dimension row is ever created. For two records with
  the same person slug the persons table stays empty and both investor rows have a null
  \<^verbatim>\<open>person_id\<close>. export_relational_fast.py, which reads with \<^verbatim>\<open>row.get\<close>, creates the one
  person row and links both investor rows to its id.
\<close>

theorem export_relational_resolves_no_person:
  "tbl_rows (er_db (process_investor_data S F fresh_db
     [[(''person'', PDict [(''slug'', PStr ''a''), (''name'', PStr ''Alice'')])],
      [(''person'', PDict [(''slug'', PStr ''a''), (''name'', PStr ''Alice'')])]]) ''persons'') = [] \<and>
   map (\<lambda>(i, r). (i, map_of r ''person_id''))
     (tbl_rows (er_db (process_investor_data S F fresh_db
       [[(''person'', PDict [(''slug'', PStr ''a''), (''name'', PStr ''Alice'')])],
        [(''person'', PDict [(''slug'', PStr ''a''), (''name'', PStr ''Alice'')])]]) ''investors'')) =
     [(1, Some PNone), (2, Some PNone)] \<and>
   map (\<lambda>(i, r). (i, map_of r ''slug''))
     (tbl_rows (fst (extract_and_bulk_insert S I fresh_db
       [[(''person'', PDict [(''slug'', PStr ''a''), (''name'', PStr ''Alice'')])],
        [(''person'', PDict [(''slug'', PStr ''a''), (''name'', PStr ''Alice'')])]]) ''persons'')) =
     [(1, Some (PStr ''a''))] \<and>
   map (\<lambda>(i, r). (i, map_of r ''person_id''))
     (tbl_rows (fst (extract_and_bulk_insert S I fresh_db
       [[(''person'', PDict [(''slug'', PStr ''a''), (''name'', PStr ''Alice'')])],
        [(''person'', PDict [(''slug'', PStr ''a''), (''name'', PStr ''Alice'')])]]) ''investors'')) =
     [(1, Some (PInt 1)), (2, Some (PInt 1))]"
  by code_simp

text \<open>
  Claim C6 fails in both nested-data scripts, for the same reason as C1: the person is read
  with \<^verbatim>\<open>safe_get(row, 'person', {})\<close>, so \<^verbatim>\<open>person_id\<close> is None for every record and the
  positions, where companies are created, are never walked. With a person of slug \<^verbatim>\<open>a\<close>
  stored, a record of that person with one position at \<^verbatim>\<open>Acme\<close> leaves the companies and the
  positions tables empty in populate_nested_data_fixed.py and in complete_population.py.
\<close>

theorem company_never_created:
  "tbl_rows (to_sql ''persons'' [[(''slug'', PStr ''a'')]] fresh_db ''persons'') =
     [(1, [(''slug'', PStr ''a'')])] \<and>
   tbl_rows (fx_db (process_nested_data S F (to_sql ''persons'' [[(''slug'', PStr ''a'')]] fresh_db)
     [[(''person'', PDict [(''slug'', PStr ''a'')]),
       (''positions'', PArray [PDict [(''title'', PStr ''Partner''),
                                        (''company'', PDict [(''name'', PStr ''Acme'')])]])]])
     ''companies'') = [] \<and>
   tbl_rows (fx_db (process_nested_data S F (to_sql ''persons'' [[(''slug'', PStr ''a'')]] fresh_db)
     [[(''person'', PDict [(''slug'', PStr ''a'')]),
       (''positions'', PArray [PDict [(''title'', PStr ''Partner''),
                                        (''company'', PDict [(''name'', PStr ''Acme'')])]])]])
     ''positions'') = [] \<and>
   tbl_rows (fst (process_all_nested_data (to_sql ''persons'' [[(''slug'', PStr ''a'')]] fresh_db)
     [[(''person'', PDict [(''slug'', PStr ''a'')]),
       (''positions'', PArray [PDict [(''title'', PStr ''Partner''),
                                        (''company'', PDict [(''name'', PStr ''Acme'')])]])]])
     ''companies'') = [] \<and>
   tbl_rows (fst (process_all_nested_data (to_sql ''persons'' [[(''slug'', PStr ''a'')]] fresh_db)
     [[(''person'', PDict [(''slug'', PStr ''a'')]),
       (''positions'', PArray [PDict [(''title'', PStr ''Partner''),
                                        (''company'', PDict [(''name'', PStr ''Acme'')])]])]])
     ''positions'') = []"
  by code_simp

section \<open>The reads export_relational_fast.py and complete_population.py leave unguarded\<close>

text \<open>
  Claim C2 fails in export_relational_fast.py. The nested-data scripts hold their part: the
  record below, whose \<^verbatim>\<open>person\<close> cell is an array of two strings, adds no position and no
  degree row in complete_population.py or populate_nested_data_fixed.py. But the investor
  row is built by \<^verbatim>\<open>extract_and_bulk_insert\<close>, which reads the cell with
  \<^verbatim>\<open>row.get('person', {}) if pd.notna(row.get('person')) else {}\<close>: \<^verbatim>\<open>pd.notna\<close> of the
  array is an array of two booleans, its truth value raises ValueError, the first loop has
  no handler, and the run ends with no investor row at all. The sibling
  export_relational.py, whose \<open>safe_get\<close> gives the default and whose loop catches per
  record, writes the investor row with a null \<^verbatim>\<open>person_id\<close>.
\<close>

theorem fast_export_drops_investor_of_array_person:
  "tbl_rows (fst (process_all_nested_data fresh_db
     [[(''person'', PArray [PStr ''x'', PStr ''y'']),
       (''positions'', PArray [PDict [(''title'', PStr ''Partner'')]])]]) ''positions'') = [] \<and>
   tbl_rows (fst (process_all_nested_data fresh_db
     [[(''person'', PArray [PStr ''x'', PStr ''y'']),
       (''positions'', PArray [PDict [(''title'', PStr ''Partner'')]])]]) ''degrees'') = [] \<and>
   positions_batch (process_nested_data S F fresh_db
     [[(''person'', PArray [PStr ''x'', PStr ''y'']),
       (''positions'', PArray [PDict [(''title'', PStr ''Partner'')]])]]) = [] \<and>
   degrees_batch (process_nested_data S F fresh_db
     [[(''person'', PArray [PStr ''x'', PStr ''y'']),
       (''positions'', PArray [PDict [(''title'', PStr ''Partner'')]])]]) = [] \<and>
   snd (extract_and_bulk_insert S I fresh_db
     [[(''person'', PArray [PStr ''x'', PStr ''y'']),
       (''positions'', PArray [PDict [(''title'', PStr ''Partner'')]])]]) = Some ValueError \<and>
   tbl_rows (fst (extract_and_bulk_insert S I fresh_db
     [[(''person'', PArray [PStr ''x'', PStr ''y'']),
       (''positions'', PArray [PDict [(''title'', PStr ''Partner'')]])]]) ''investors'') = [] \<and>
   map (\<lambda>(i, r). (i, map_of r ''person_id''))
     (tbl_rows (er_db (process_investor_data S F fresh_db
       [[(''person'', PArray [PStr ''x'', PStr ''y'']),
         (''positions'', PArray [PDict [(''title'', PStr ''Partner'')]])]]) ''investors'')) =
     [(1, Some PNone)]"
  by code_simp

text \<open>
  Claim C3 fails in export_relational_fast.py, whose loops have no handler. In the second
  record below \<^verbatim>\<open>vote_count\<close> is a dict: \<^verbatim>\<open>int(row.get('vote_count', 0))\<close> raises
  TypeError in the second loop, the exception leaves \<^verbatim>\<open>extract_and_bulk_insert\<close>, and the
  investors table stays empty: the second record has no row, and the first has lost the
  row that was waiting in the batch. The sibling export_relational.py, with \<open>safe_int\<close>
  and a handler per record, writes one row per record, ids 1 and 2, and logs nothing.
\<close>

theorem fast_export_aborts_on_bad_vote_count:
  "snd (extract_and_bulk_insert S I fresh_db
     [[(''headline'', PStr ''Angel'')], [(''vote_count'', PDict [(''up'', PInt 3)])]]) =
     Some TypeError \<and>
   tbl_rows (fst (extract_and_bulk_insert S I fresh_db
     [[(''headline'', PStr ''Angel'')], [(''vote_count'', PDict [(''up'', PInt 3)])]])
     ''investors'') = [] \<and>
   map (\<lambda>(i, r). (i, map_of r ''vote_count''))
     (tbl_rows (er_db (process_investor_data S F fresh_db
       [[(''headline'', PStr ''Angel'')], [(''vote_count'', PDict [(''up'', PInt 3)])]])
       ''investors'')) = [(1, Some (PInt 0)), (2, Some (PInt 0))] \<and>
   er_errors (process_investor_data S F fresh_db
     [[(''headline'', PStr ''Angel'')], [(''vote_count'', PDict [(''up'', PInt 3)])]]) = []"
  by code_simp

text \<open>
  Claim C8 fails outside \<open>safe_get\<close>. \<open>safe_get\<close> itself gives the default for an array.
  export_relational_fast.py guards the read of a record's location with
  \<^verbatim>\<open>pd.notna(row.get('location'))\<close>: for a cell that is an array of two strings the test
  raises ValueError instead of giving the empty default, and the run ends without an
  investor row. export_relational.py reads the same record with \<open>safe_get\<close> and writes the
  row with a null \<^verbatim>\<open>location_id\<close>. In complete_population.py the company of a position is
  read under \<^verbatim>\<open>if company_data\<close>, which raises for such an array, where
  populate_nested_data_fixed.py tests \<^verbatim>\<open>isinstance(company_data, dict)\<close> first and adds
  the position with a null \<^verbatim>\<open>company_id\<close>.
\<close>

theorem unguarded_read_raises_on_array_container:
  "safe_get (PArray [PStr ''NY'', PStr ''SF'']) ''display_name'' PNone = PNone \<and>
   cell_or_empty [(''location'', PArray [PStr ''NY'', PStr ''SF''])] ''location'' = Inl ValueError \<and>
   snd (extract_and_bulk_insert S I fresh_db
     [[(''location'', PArray [PStr ''NY'', PStr ''SF''])]]) = Some ValueError \<and>
   tbl_rows (fst (extract_and_bulk_insert S I fresh_db
     [[(''location'', PArray [PStr ''NY'', PStr ''SF''])]]) ''investors'') = [] \<and>
   map (\<lambda>(i, r). (i, map_of r ''location_id''))
     (tbl_rows (er_db (process_investor_data S F fresh_db
       [[(''location'', PArray [PStr ''NY'', PStr ''SF''])]]) ''investors'')) = [(1, Some PNone)] \<and>
   er_errors (process_investor_data S F fresh_db
     [[(''location'', PArray [PStr ''NY'', PStr ''SF''])]]) = [] \<and>
   cp_position (PInt 1) (PDict [(''company'', PArray [PStr ''a'', PStr ''b''])]) =
     Inl ValueError \<and>
   (case fx_position S F (PInt 1) (PDict [(''company'', PArray [PStr ''a'', PStr ''b''])])
           (fx_start fresh_db) of
      Inl e \<Rightarrow> False
    | Inr st \<Rightarrow> map (\<lambda>r. map_of r ''company_id'') (positions_batch st) = [Some PNone])"
  by code_simp

section \<open>General facts behind the evaluations\<close>

text \<open>
  export_relational.py, for every input: each read of the row through \<open>safe_get\<close> gives
  its default, so no record raises, no person, firm or location row is ever inserted, and
  every record gets one investor row with three null foreign keys.
\<close>

lemma safe_get_series [simp]: "safe_get (PSeries row) key dflt = dflt"
  by (simp add: safe_get_def)

lemma er_record_plain:
  "er_record S F idx row st =
     (st\<lparr>er_db := fst (insert_returning ''investors''
                         (er_investor_row S F row PNone PNone PNone) (er_db st))\<rparr>,
      Inr (PInt (int (Suc (tbl_serial (er_db st ''investors''))))))"
  by (simp add: er_record_def er_person_def er_location_def er_firm_def bind_st_def
        insert_returning_def Let_def)

lemma er_loop_dimensions_untouched:
  "t \<noteq> ''investors'' \<Longrightarrow> er_db (er_loop S F idx rows st) t = er_db st t"
  by (induction rows arbitrary: idx st) (simp_all add: er_record_plain insert_returning_other)

lemma er_loop_investors:
  "tbl_rows (er_db (er_loop S F idx rows st) ''investors'') =
     tbl_rows (er_db st ''investors'') @
     zip [Suc (tbl_serial (er_db st ''investors''))..<
          Suc (tbl_serial (er_db st ''investors'')) + length rows]
         (map (\<lambda>row. er_investor_row S F row PNone PNone PNone) rows) \<and>
   tbl_serial (er_db (er_loop S F idx rows st) ''investors'') =
     tbl_serial (er_db st ''investors'') + length rows"
proof (induction rows arbitrary: idx st)
  case Nil
  show ?case by simp
next
  case (Cons row rest)
  let ?st = "st\<lparr>er_db := fst (insert_returning ''investors''
                         (er_investor_row S F row PNone PNone PNone) (er_db st))\<rparr>"
  have z: "zip [Suc (tbl_serial (er_db st ''investors''))..<
               Suc (tbl_serial (er_db st ''investors'')) + Suc (length rest)]
             (er_investor_row S F row PNone PNone PNone #
              map (\<lambda>row. er_investor_row S F row PNone PNone PNone) rest) =
           (Suc (tbl_serial (er_db st ''investors'')), er_investor_row S F row PNone PNone PNone) #
           zip [Suc (Suc (tbl_serial (er_db st ''investors'')))..<
                Suc (Suc (tbl_serial (er_db st ''investors''))) + length rest]
             (map (\<lambda>row. er_investor_row S F row PNone PNone PNone) rest)"
    by (rule zip_upt_Cons)
  show ?case
    using Cons.IH [of "Suc idx" "?st\<lparr>er_committed := er_db ?st\<rparr>"] z
    by (simp add: er_record_plain insert_returning_same del: upt_Suc)
qed

lemma process_investor_data_links_nothing:
  "tbl_rows (er_db (process_investor_data S F fresh_db rows) ''persons'') = [] \<and>
   tbl_rows (er_db (process_investor_data S F fresh_db rows) ''firms'') = [] \<and>
   tbl_rows (er_db (process_investor_data S F fresh_db rows) ''locations'') = [] \<and>
   tbl_rows (er_db (process_investor_data S F fresh_db rows) ''investors'') =
     zip [1..<Suc (length rows)] (map (\<lambda>row. er_investor_row S F row PNone PNone PNone) rows)"
  using er_loop_investors [of S F 0 rows]
  by (simp add: process_investor_data_def er_loop_dimensions_untouched fresh_db_def
        empty_table_def del: upt_Suc)

text \<open>
  The registry step of populate_nested_data_fixed.py, once it is reached: a name already in
  \<^verbatim>\<open>company_map\<close> gives the id stored there and changes nothing; a new name inserts one
  company row and registers its id, leaving the other names as they were.
\<close>

lemma map_of_replace:
  "map_of (map (\<lambda>(a, b). if a = k then (a, v) else (a, b)) m) k' =
     (if k' = k \<and> map_of m k \<noteq> None then Some v else map_of m k')"
  by (induction m) auto

lemma pd_put_same: "map_of (pd_put m k v) k = Some v"
  by (simp add: pd_put_def map_of_replace map_add_def split: option.splits)

lemma pd_put_other: "k' \<noteq> k \<Longrightarrow> map_of (pd_put m k v) k' = map_of m k'"
  by (simp add: pd_put_def map_of_replace map_add_def split: option.splits)

lemma fx_company_known:
  assumes "is_dict company_data" and "truthy company_data = Inr True"
    and "safe_get company_data ''name'' PNone = PStr name" and "name \<noteq> []"
    and "map_of (company_map st) (PStr name) = Some company_id"
  shows "fx_company S F company_data st = Inr (st, company_id)"
  using assms by (simp add: fx_company_def pd_contains_def pd_get_def)

lemma fx_company_new:
  assumes "is_dict company_data" and "truthy company_data = Inr True"
    and "safe_get company_data ''name'' PNone = PStr name" and "name \<noteq> []"
    and "map_of (company_map st) (PStr name) = None"
  shows "\<exists>st'. fx_company S F company_data st =
            Inr (st', PInt (int (Suc (tbl_serial (fx_db st ''companies''))))) \<and>
          map_of (company_map st') (PStr name) =
            Some (PInt (int (Suc (tbl_serial (fx_db st ''companies''))))) \<and>
          (\<forall>k. k \<noteq> PStr name \<longrightarrow> map_of (company_map st') k = map_of (company_map st) k) \<and>
          length (tbl_rows (fx_db st' ''companies'')) =
            Suc (length (tbl_rows (fx_db st ''companies'')))"
  using assms
  by (simp add: fx_company_def pd_contains_def insert_returning_def Let_def pd_put_same
        pd_put_other)

text \<open>
  The loop of populate_nested_data_fixed.py reaches every record whatever the records
  before it did, and logs an exception under the index of the record that raised it.
\<close>

lemma fx_loop_append:
  "fx_loop S F idx (before @ after) st =
     fx_loop S F (idx + length before) after (fx_loop S F idx before st)"
  by (induction before arbitrary: idx st) (simp_all split: prod.splits option.splits)

lemma fx_loop_logs_the_ordinal:
  "fx_record S F idx row st = (st', Some e) \<Longrightarrow>
     fx_loop S F idx (row # rest) st =
       fx_loop S F (Suc idx) rest (st'\<lparr>fx_errors := fx_errors st' @ [(idx, e)]\<rparr>)"
  by simp

text \<open>Every investment row of populate_nested_data_fixed.py has a truthy company name.\<close>

lemma fx_investment_needs_company_name:
  assumes "fx_investment i edge = Inr rs" and "r \<in> set rs"
  shows "\<exists>name. map_of r ''company_display_name'' = Some name \<and> truthy name = Inr True"
  using assms
  by (auto simp: fx_investment_def Let_def then_do_eq_Inr split: if_splits)

text \<open>
  export_relational_fast.py, for every input and whether or not the run returns: after
  \<^verbatim>\<open>drop_duplicates\<close> the persons table of the model holds each slug once, under distinct
  ids.
\<close>

lemma first_per_key_keys:
  "set (map (\<lambda>r. na_key r col) (first_per_key col seen rs)) =
     set (map (\<lambda>r. na_key r col) rs) - set seen \<and>
   distinct (map (\<lambda>r. na_key r col) (first_per_key col seen rs))"
  by (induction rs arbitrary: seen) auto

lemma frame_row_key: "dict_get (frame_row r) col PNone = na_key r col"
  by (induction r) (auto simp: frame_row_def dict_get_def na_key_def Let_def)

lemma fast_pass2_other:
  "fast_pass2 I pm fm lm idx rows batch db = (db', r) \<Longrightarrow> t \<noteq> ''investors'' \<Longrightarrow> db' t = db t"
proof (induction rows arbitrary: idx batch db)
  case Nil
  then show ?case by (auto simp: to_sql_other split: if_splits)
next
  case (Cons row rest)
  show ?case
  proof (cases "fast_investor I pm fm lm idx row")
    case (Inl e)
    with Cons.prems show ?thesis by simp
  next
    case (Inr inv)
    show ?thesis
    proof (cases "length (batch @ [inv]) \<ge> 1000")
      case True
      with Cons.prems Inr
      have "fast_pass2 I pm fm lm (Suc idx) rest [] (to_sql ''investors'' (batch @ [inv]) db) = (db', r)"
        by simp
      from Cons.IH [OF this Cons.prems(2)] Cons.prems(2) show ?thesis
        by (simp add: to_sql_other)
    next
      case False
      with Cons.prems Inr
      have "fast_pass2 I pm fm lm (Suc idx) rest (batch @ [inv]) db = (db', r)"
        by simp
      from Cons.IH [OF this Cons.prems(2)] show ?thesis .
    qed
  qed
qed

lemma fast_store_dim_rows:
  assumes "tbl_rows (db t) = []"
  shows "distinct (map (\<lambda>(i, row). dict_get row col PNone)
                    (tbl_rows (fast_store_dim t col drafts db t))) \<and>
         set (map (\<lambda>(i, row). dict_get row col PNone) (tbl_rows (fast_store_dim t col drafts db t))) =
           set (map (\<lambda>row. na_key row col) drafts) \<and>
         distinct (map fst (tbl_rows (fast_store_dim t col drafts db t)))"
proof (cases "drafts = []")
  case True
  with assms show ?thesis by (simp add: fast_store_dim_def)
next
  case False
  let ?frame = "first_per_key col [] drafts"
  have db': "fast_store_dim t col drafts db = to_sql t ?frame db"
    using False by (simp add: fast_store_dim_def drop_duplicates_def)
  have rows: "tbl_rows (fast_store_dim t col drafts db t) =
      zip [Suc (tbl_serial (db t))..<Suc (tbl_serial (db t)) + length ?frame] (map frame_row ?frame)"
    using to_sql_same [of t ?frame db] assms db' by simp
  have keys: "map (\<lambda>(i, row). dict_get row col PNone) (tbl_rows (fast_store_dim t col drafts db t)) =
      map (\<lambda>r. na_key r col) ?frame"
    unfolding rows
    by (rule nth_equalityI) (simp_all add: frame_row_key del: upt_Suc)
  have ids: "map fst (tbl_rows (fast_store_dim t col drafts db t)) =
      [Suc (tbl_serial (db t))..<Suc (tbl_serial (db t)) + length ?frame]"
    unfolding rows by (simp del: upt_Suc)
  show ?thesis
    using keys ids first_per_key_keys [of col "[]" drafts] by (simp del: upt_Suc)
qed

lemma persons_after_run:
  assumes "extract_and_bulk_insert S I fresh_db rows = (db, r)"
  shows "distinct (map (\<lambda>(i, row). dict_get row ''slug'' PNone) (tbl_rows (db ''persons''))) \<and>
         distinct (map fst (tbl_rows (db ''persons'')))"
proof (cases "fast_pass1 S 0 rows")
  case (Inl e)
  with assms show ?thesis
    by (auto simp: extract_and_bulk_insert_def fresh_db_def empty_table_def)
next
  case (Inr drafts)
  obtain ps fs ls where drafts: "drafts = (ps, fs, ls)" by (cases drafts)
  define db1 where "db1 = fast_store_dim ''persons'' ''slug'' ps fresh_db"
  define db3 where "db3 = fast_store_dim ''locations'' ''display_name'' ls
     (fast_store_dim ''firms'' ''slug'' fs db1)"
  have p1: "distinct (map (\<lambda>(i, row). dict_get row ''slug'' PNone) (tbl_rows (db1 ''persons''))) \<and>
            distinct (map fst (tbl_rows (db1 ''persons'')))"
    using fast_store_dim_rows [of fresh_db "''persons''" "''slug''" ps]
    by (simp add: db1_def fresh_db_def empty_table_def)
  have s3: "db3 ''persons'' = db1 ''persons''"
    by (simp add: db3_def fast_store_dim_other)
  from assms Inr drafts
  have "fast_pass2 I (select_map ''persons'' ''slug'' db3) (select_map ''firms'' ''slug'' db3)
          (select_map ''locations'' ''display_name'' db3) 0 rows [] db3 = (db, r)"
    by (simp add: extract_and_bulk_insert_def db3_def db1_def Let_def)
  from fast_pass2_other [OF this, of "''persons''"] s3 p1 show ?thesis by simp
qed

end
